theory Spec2Isabelle
  imports Main
begin

unbundle bit_operations_syntax

section \<open>Go standard library functions used by the jailer\<close>

text \<open>
  The jailer code calls a few functions of Go's standard library. They are modelled here on
  byte strings (\<open>string\<close> is a list of bytes), for Unix paths with separator \<open>/\<close>.
  Go's \<open>int\<close> is modelled as \<open>int\<close>: the code only stores, passes and prints integers.
\<close>

subsection \<open>strconv.Itoa\<close>

definition digit_char :: "nat \<Rightarrow> char" where
  "digit_char d = ''0123456789'' ! d"

fun nat_digits :: "nat \<Rightarrow> string" where
  "nat_digits n = (if n < 10 then [digit_char n] else nat_digits (n div 10) @ [digit_char (n mod 10)])"

declare nat_digits.simps [simp del]

definition Itoa :: "int \<Rightarrow> string" where
  "Itoa i = (if i < 0 then CHR ''-'' # nat_digits (nat (- i)) else nat_digits (nat i))"

subsection \<open>strings.Join, filepath.Base, filepath.Clean, filepath.Join\<close>

fun strings_Join :: "string list \<Rightarrow> string \<Rightarrow> string" where
  "strings_Join [] sep = []"
| "strings_Join [e] sep = e"
| "strings_Join (e # es) sep = e @ sep @ strings_Join es sep"

definition IsPathSeparator :: "char \<Rightarrow> bool" where
  "IsPathSeparator c = (c = CHR ''/'')"

text \<open>
  \<open>filepath.Base\<close>: the empty path gives \<open>.\<close>; trailing separators are stripped; the result is
  what follows the last separator; a path of separators only gives \<open>/\<close>.
\<close>

definition filepath_Base :: "string \<Rightarrow> string" where
  "filepath_Base path =
     (if path = [] then ''.''
      else let p = rev (dropWhile IsPathSeparator (rev path));
               e = rev (takeWhile (\<lambda>c. \<not> IsPathSeparator c) (rev p))
           in if e = [] then ''/'' else e)"

text \<open>
  \<open>filepath.Clean\<close> reads the path element by element and keeps the elements of the result:
  an empty element and \<open>.\<close> are dropped; \<open>..\<close> removes the last kept element when there is one
  that is not itself a kept \<open>..\<close>, is kept when the path is not rooted, and is dropped at the
  root; any other element is kept. The empty result is \<open>.\<close>.
\<close>

fun split_sep :: "string \<Rightarrow> string list" where
  "split_sep [] = [[]]"
| "split_sep (c # cs) =
     (if IsPathSeparator c then [] # split_sep cs
      else (case split_sep cs of [] \<Rightarrow> [[c]] | e # es \<Rightarrow> (c # e) # es))"

definition clean_step :: "bool \<Rightarrow> string list \<Rightarrow> string \<Rightarrow> string list" where
  "clean_step rooted out e =
     (if e = [] \<or> e = ''.'' then out
      else if e = ''..'' then
        (if out \<noteq> [] \<and> last out \<noteq> ''..'' then butlast out
         else if \<not> rooted then out @ [''..'']
         else out)
      else out @ [e])"

definition filepath_Clean :: "string \<Rightarrow> string" where
  "filepath_Clean path =
     (if path = [] then ''.''
      else let rooted = IsPathSeparator (hd path);
               out = foldl (clean_step rooted) [] (split_sep path);
               s = (if rooted then ''/'' else []) @ strings_Join out ''/''
           in if s = [] then ''.'' else s)"

text \<open>\<open>filepath.Join\<close> skips leading empty elements, joins the rest with \<open>/\<close> and cleans.\<close>

fun filepath_Join :: "string list \<Rightarrow> string" where
  "filepath_Join [] = []"
| "filepath_Join (e # es) =
     (if e = [] then filepath_Join es else filepath_Clean (strings_Join (e # es) ''/''))"

declare filepath_Join.simps [simp del]


section \<open>The jailer command builder (jailer.go)\<close>

text \<open>
  Names follow the source. Where two source names would be the same constant here, one of
  them carries a suffix: the builder's field \<open>id\<close> is \<open>id_f\<close>; the fields of \<open>JailerConfig\<close>
  that share their name with a builder method carry \<open>_cfg\<close>; the method
  \<open>JailerConfig.chrootBaseDir\<close> is \<open>chrootBaseDir_cfg\<close>; the fields of Go's \<open>exec.Cmd\<close> carry
  the prefix \<open>Cmd_\<close>.
\<close>

type_synonym SeccompLevelValue = int

definition SeccompLevelDisable :: SeccompLevelValue where "SeccompLevelDisable = 0"
definition SeccompLevelBasic :: SeccompLevelValue where "SeccompLevelBasic = 1"
definition SeccompLevelAdvanced :: SeccompLevelValue where "SeccompLevelAdvanced = 2"

definition defaultJailerPath :: string where "defaultJailerPath = ''/srv/jailer''"
definition defaultJailerBin :: string where "defaultJailerBin = ''jailer''"
definition rootfsFolderName :: string where "rootfsFolderName = ''root''"

text \<open>An \<open>io.Reader\<close> or \<open>io.Writer\<close> value is a handle on a stream; the nil interface is \<open>None\<close>.\<close>

datatype stream = os_Stdin | os_Stdout | os_Stderr | Stream nat

record JailerCommandBuilder =
  bin :: string
  id_f :: string
  uid :: int
  gid :: int
  execFile :: string
  node :: int
  chrootBaseDir :: string
  netNS :: string
  daemonize :: bool
  seccompLevel :: SeccompLevelValue
  stdin :: "stream option"
  stdout :: "stream option"
  stderr :: "stream option"

text \<open>The zero value \<open>JailerCommandBuilder{}\<close>.\<close>

definition JailerCommandBuilder_zero :: JailerCommandBuilder where
  "JailerCommandBuilder_zero =
     \<lparr>bin = [], id_f = [], uid = 0, gid = 0, execFile = [], node = 0, chrootBaseDir = [],
      netNS = [], daemonize = False, seccompLevel = 0, stdin = None, stdout = None,
      stderr = None\<rparr>"

definition Bin :: "JailerCommandBuilder \<Rightarrow> string" where
  "Bin b = (if length (bin b) = 0 then defaultJailerBin else bin b)"

definition WithBin :: "string \<Rightarrow> JailerCommandBuilder \<Rightarrow> JailerCommandBuilder" where
  "WithBin x b = b\<lparr>bin := x\<rparr>"

definition ID :: "JailerCommandBuilder \<Rightarrow> string list" where
  "ID b = [''--id'', id_f b]"

definition WithID :: "string \<Rightarrow> JailerCommandBuilder \<Rightarrow> JailerCommandBuilder" where
  "WithID x b = b\<lparr>id_f := x\<rparr>"

definition UID :: "JailerCommandBuilder \<Rightarrow> string list" where
  "UID b = [''--uid'', Itoa (uid b)]"

definition WithUID :: "int \<Rightarrow> JailerCommandBuilder \<Rightarrow> JailerCommandBuilder" where
  "WithUID x b = b\<lparr>uid := x\<rparr>"

definition GID :: "JailerCommandBuilder \<Rightarrow> string list" where
  "GID b = [''--gid'', Itoa (gid b)]"

definition WithGID :: "int \<Rightarrow> JailerCommandBuilder \<Rightarrow> JailerCommandBuilder" where
  "WithGID x b = b\<lparr>gid := x\<rparr>"

definition ExecFile :: "JailerCommandBuilder \<Rightarrow> string list" where
  "ExecFile b = [''--exec-file'', execFile b]"

definition WithExecFile :: "string \<Rightarrow> JailerCommandBuilder \<Rightarrow> JailerCommandBuilder" where
  "WithExecFile x b = b\<lparr>execFile := x\<rparr>"

definition NumaNode :: "JailerCommandBuilder \<Rightarrow> string list" where
  "NumaNode b = [''--node'', Itoa (node b)]"

definition WithNumaNode :: "int \<Rightarrow> JailerCommandBuilder \<Rightarrow> JailerCommandBuilder" where
  "WithNumaNode x b = b\<lparr>node := x\<rparr>"

definition ChrootBaseDir :: "JailerCommandBuilder \<Rightarrow> string list" where
  "ChrootBaseDir b = [''--chroot-base-dir'', chrootBaseDir b]"

definition WithChrootBaseDir :: "string \<Rightarrow> JailerCommandBuilder \<Rightarrow> JailerCommandBuilder" where
  "WithChrootBaseDir x b = b\<lparr>chrootBaseDir := x\<rparr>"

definition NetNS :: "JailerCommandBuilder \<Rightarrow> string list" where
  "NetNS b = [''--netns'', netNS b]"

definition WithNetNS :: "string \<Rightarrow> JailerCommandBuilder \<Rightarrow> JailerCommandBuilder" where
  "WithNetNS x b = b\<lparr>netNS := x\<rparr>"

definition WithDaemonize :: "bool \<Rightarrow> JailerCommandBuilder \<Rightarrow> JailerCommandBuilder" where
  "WithDaemonize x b = b\<lparr>daemonize := x\<rparr>"

definition SeccompLevel :: "JailerCommandBuilder \<Rightarrow> string list" where
  "SeccompLevel b = [''--seccomp-level'', Itoa (seccompLevel b)]"

definition WithSeccompLevel ::
  "SeccompLevelValue \<Rightarrow> JailerCommandBuilder \<Rightarrow> JailerCommandBuilder" where
  "WithSeccompLevel x b = b\<lparr>seccompLevel := x\<rparr>"

definition Stdout :: "JailerCommandBuilder \<Rightarrow> stream option" where
  "Stdout b = stdout b"

definition WithStdout :: "stream option \<Rightarrow> JailerCommandBuilder \<Rightarrow> JailerCommandBuilder" where
  "WithStdout x b = b\<lparr>stdout := x\<rparr>"

definition Stderr :: "JailerCommandBuilder \<Rightarrow> stream option" where
  "Stderr b = stderr b"

definition WithStderr :: "stream option \<Rightarrow> JailerCommandBuilder \<Rightarrow> JailerCommandBuilder" where
  "WithStderr x b = b\<lparr>stderr := x\<rparr>"

definition Stdin :: "JailerCommandBuilder \<Rightarrow> stream option" where
  "Stdin b = stdin b"

definition WithStdin :: "stream option \<Rightarrow> JailerCommandBuilder \<Rightarrow> JailerCommandBuilder" where
  "WithStdin x b = b\<lparr>stdin := x\<rparr>"

text \<open>\<open>Args\<close> appends to the local slice \<open>args\<close>, statement by statement.\<close>

definition Args :: "JailerCommandBuilder \<Rightarrow> string list" where
  "Args b =
     (let args = [];
          args = args @ ID b;
          args = args @ UID b;
          args = args @ GID b;
          args = args @ ExecFile b;
          args = args @ NumaNode b;
          args = (if length (chrootBaseDir b) > 0 then args @ ChrootBaseDir b else args);
          args = (if length (netNS b) > 0 then args @ NetNS b else args);
          args = args @ SeccompLevel b;
          args = (if daemonize b then args @ [''--daemonize''] else args)
      in args)"

text \<open>
  Go's \<open>exec.Cmd\<close>, as far as the jailer uses it: the argument vector (the program name
  first), the three streams, and the process id once the command has been started.
  \<open>exec.CommandContext\<close> fills in the argument vector and leaves the rest nil. The context
  and the diagnostic line that \<open>Build\<close> prints on the standard output are not part of the
  model.
\<close>

record Cmd =
  Cmd_Args :: "string list"
  Cmd_Stdin :: "stream option"
  Cmd_Stdout :: "stream option"
  Cmd_Stderr :: "stream option"
  Cmd_Process :: "int option"

definition exec_CommandContext :: "string \<Rightarrow> string list \<Rightarrow> Cmd" where
  "exec_CommandContext name arg =
     \<lparr>Cmd_Args = name # arg, Cmd_Stdin = None, Cmd_Stdout = None, Cmd_Stderr = None,
      Cmd_Process = None\<rparr>"

definition Build :: "JailerCommandBuilder \<Rightarrow> Cmd" where
  "Build b =
     (let cmd = exec_CommandContext (Bin b) (Args b);
          cmd = (case Stdin b of Some s \<Rightarrow> cmd\<lparr>Cmd_Stdin := Some s\<rparr> | None \<Rightarrow> cmd);
          cmd = (case Stdout b of Some s \<Rightarrow> cmd\<lparr>Cmd_Stdout := Some s\<rparr> | None \<Rightarrow> cmd);
          cmd = (case Stderr b of Some s \<Rightarrow> cmd\<lparr>Cmd_Stderr := Some s\<rparr> | None \<Rightarrow> cmd)
      in cmd)"

text \<open>
  Every method of \<open>JailerCommandBuilder\<close> has a value receiver \<open>(b JailerCommandBuilder)\<close>: a
  call copies the caller's builder into the callee's variable \<open>b\<close>, the body works on that
  copy, and the copy is dropped at the return. A body is a function from the copy at entry to
  the returned value and the copy at the return: a setter assigns a field of its copy and
  returns the copy, every other method only reads. \<open>call\<close> gives the returned value and the
  caller's builder after the call.
\<close>

type_synonym 'r body = "JailerCommandBuilder \<Rightarrow> 'r \<times> JailerCommandBuilder"

definition setter :: "(JailerCommandBuilder \<Rightarrow> JailerCommandBuilder) \<Rightarrow> JailerCommandBuilder body" where
  "setter f b = (let b = f b in (b, b))"

definition reader :: "(JailerCommandBuilder \<Rightarrow> 'r) \<Rightarrow> 'r body" where
  "reader g b = (g b, b)"

definition call :: "'r body \<Rightarrow> JailerCommandBuilder \<Rightarrow> 'r \<times> JailerCommandBuilder" where
  "call m v = (case m v of (r, callee_copy) \<Rightarrow> (r, v))"


section \<open>Errors, panics and the operating system\<close>

text \<open>
  An \<open>error\<close> value is an error of the operating system (its number and text), an error made
  by \<open>fmt.Errorf\<close> (the format with its arguments), or an aggregate of go-multierror. A
  function that returns \<open>error\<close> returns \<open>error option\<close>, with \<open>None\<close> for nil.
\<close>

datatype error =
    OSError nat string
  | Errorf string "fmt_arg list"
  | MultiError "error list"
and fmt_arg = ArgS string | ArgQ string | ArgV error

definition ENOENT :: nat where "ENOENT = 2"

fun os_IsNotExist :: "error option \<Rightarrow> bool" where
  "os_IsNotExist (Some (OSError n msg)) = (n = ENOENT)"
| "os_IsNotExist other = False"

text \<open>A nil pointer dereference panics: the function does not return.\<close>

datatype 'a outcome = Return 'a | Panic

text \<open>
  The calls that reach outside the program, under the names the source calls them by:
  \<open>os_Link src dst\<close>, \<open>os_Chown path uid gid\<close>, \<open>syscall_Unmount target flags\<close>, \<open>os_Stat path\<close>,
  \<open>Cmd_Run argv\<close> (running an \<open>exec.Command\<close>), \<open>os_Create path\<close>, \<open>syscall_Mount source target
  fstype flags data\<close>, \<open>unix_Open path mode perm\<close> and \<open>unix_Setns fd nstype\<close>. \<open>File_Close\<close>,
  \<open>unix_Setns\<close> and \<open>unix_Close\<close> name the open file by the path it was opened with. The
  diagnostic lines that the code prints on the standard output are not part of the trace.
\<close>

datatype syscall =
    os_Link string string
  | os_Chown string int int
  | syscall_Unmount string nat
  | os_Stat string
  | Cmd_Run "string list"
  | os_Create string
  | File_Close string
  | syscall_Mount string string string nat string
  | unix_Open string nat nat
  | unix_Setns string nat
  | unix_Close string

text \<open>
  The operating system decides whether a call fails, knowing the calls made so far. The
  program's effect on the world is the sequence of calls it makes: \<open>do_call\<close> appends the call
  to the trace and gives the system's answer.
\<close>

type_synonym os = "syscall list \<Rightarrow> syscall \<Rightarrow> error option"

definition do_call :: "os \<Rightarrow> syscall \<Rightarrow> syscall list \<Rightarrow> error option \<times> syscall list" where
  "do_call env c tr = (env tr c, tr @ [c])"

definition MNT_FORCE :: nat where "MNT_FORCE = 1"
definition MS_RDONLY :: nat where "MS_RDONLY = 1"
definition MS_REMOUNT :: nat where "MS_REMOUNT = 32"
definition MS_BIND :: nat where "MS_BIND = 4096"

subsection \<open>go-multierror\<close>

text \<open>
  A \<open>*multierror.Error\<close> is a pointer: nil (\<open>None\<close>) or the address of an \<open>Error\<close> object, whose
  \<open>Errors\<close> list lives in the store. \<open>multierror.Append\<close> appends to the object it is given
  and returns it; given nil it allocates a new object and returns that. It appends the error
  itself, or the errors of an aggregate. \<open>ErrorOrNil\<close> of nil, or of an object without
  errors, is nil.
\<close>

type_synonym merr_ptr = "nat option"
type_synonym merr_store = "error list list"

fun flattened :: "error \<Rightarrow> error list" where
  "flattened (MultiError es) = es"
| "flattened e = [e]"

definition multierror_Append :: "merr_store \<Rightarrow> merr_ptr \<Rightarrow> error \<Rightarrow> merr_store \<times> merr_ptr" where
  "multierror_Append st p e =
     (case p of
        None \<Rightarrow> (st @ [flattened e], Some (length st))
      | Some a \<Rightarrow> (st[a := st ! a @ flattened e], Some a))"

definition ErrorOrNil :: "merr_store \<Rightarrow> merr_ptr \<Rightarrow> error option" where
  "ErrorOrNil st p =
     (case p of
        None \<Rightarrow> None
      | Some a \<Rightarrow> (if length (st ! a) = 0 then None else Some (MultiError (st ! a))))"

section \<open>The handler pipeline\<close>

text \<open>
  Modelled from the spec: the file that declares \<open>Handler\<close>, \<open>HandlerList\<close>, \<open>Handlers\<close>, the
  handler names and the list operations \<open>Has\<close>, \<open>AppendAfter\<close> and \<open>Swappend\<close> is not among the
  sources. The types have the fields that jailer.go uses; the two names are fixed strings.

  A handler's function is a closure over \<open>*Machine\<close>, and a machine holds its handlers, so the
  functions are named by a tag with the variables they captured: \<open>LinkFilesFn rootfs
  kernelImageFileName\<close> is the closure made by \<open>LinkFilesHandler\<close>, \<open>MountToRootFSFn data\<close> is
  the method value \<open>s.handler\<close> of a \<open>BindMountDevMapperStrategy\<close> with that \<open>data\<close>,
  \<open>UmountDriveFn\<close> is the closure of the teardown step, and \<open>CallerFn n\<close> stands for the
  handlers the caller put in the lists.
\<close>

datatype HandlerFn =
    LinkFilesFn string string
  | MountToRootFSFn string
  | UmountDriveFn
  | CallerFn nat

record Handler =
  Name :: string
  Fn :: HandlerFn

type_synonym HandlerList = "Handler list"

record Handlers =
  FcInit :: HandlerList
  Finish :: HandlerList

text \<open>
  Modelled from the spec: the names of the anchor step and of the link step are constants of
  the missing file; the spec gives no text for them.
\<close>

definition CreateMachineHandlerName :: string where
  "CreateMachineHandlerName = ''fcinit.CreateMachine''"

definition LinkFilesToRootFSHandlerName :: string where
  "LinkFilesToRootFSHandlerName = ''fcinit.LinkFilesToRootFS''"

text \<open>Modelled from the spec: \<open>has(name)\<close> tells whether the list has an entry of that name.\<close>

fun Has :: "HandlerList \<Rightarrow> string \<Rightarrow> bool" where
  "Has [] name = False"
| "Has (h # l) name = (if Name h = name then True else Has l name)"

text \<open>
  Modelled from the spec: \<open>appendAfter(anchorName, newEntry)\<close> gives the list unmodified when
  the anchor is absent, and otherwise inserts the new entry immediately after the anchor.
\<close>

fun AppendAfter :: "HandlerList \<Rightarrow> string \<Rightarrow> Handler \<Rightarrow> HandlerList" where
  "AppendAfter [] name handler = []"
| "AppendAfter (h # l) name handler =
     (if Name h = name then h # handler # l else h # AppendAfter l name handler)"

text \<open>
  Modelled from the spec: \<open>swapOrAppend(entry)\<close> replaces in place an entry of the same name,
  and appends the entry at the end when there is none.
\<close>

fun Swappend :: "HandlerList \<Rightarrow> Handler \<Rightarrow> HandlerList" where
  "Swappend [] handler = [handler]"
| "Swappend (h # l) handler =
     (if Name h = Name handler then handler # l else h # Swappend l handler)"

section \<open>Configuration and machine\<close>

text \<open>
  The strategies that implement \<open>HandlersAdaptor\<close>: \<open>NaiveDevMapperStrategy Rootfs
  KernelImagePath\<close> and \<open>BindMountDevMapperStrategy data\<close>.
\<close>

datatype HandlersAdaptor =
    NaiveDevMapperStrategy string string
  | BindMountDevMapperStrategy string

record JailerConfig =
  GID_cfg :: "int option"
  UID_cfg :: "int option"
  ID_cfg :: string
  NumaNode_cfg :: "int option"
  ExecFile_cfg :: string
  ChrootBaseDir_cfg :: string
  NetNS_cfg :: string
  Daemonize :: bool
  SeccompLevel_cfg :: SeccompLevelValue
  DevMapperStrategy :: "HandlersAdaptor option"

text \<open>
  Modelled from the spec: \<open>models.Drive\<close>, \<open>Config\<close> and \<open>Machine\<close> are declared outside the
  sources; they have the fields that jailer.go reads and writes. A drive's host path and
  read-only flag are pointers, nil being \<open>None\<close>; \<open>StringValue\<close> and \<open>BoolValue\<close> read through
  the pointer and give the zero value for nil.
\<close>

record Drive =
  PathOnHost :: "string option"
  IsReadOnly :: "bool option"

definition StringValue :: "string option \<Rightarrow> string" where
  "StringValue p = (case p of None \<Rightarrow> [] | Some v \<Rightarrow> v)"

definition BoolValue :: "bool option \<Rightarrow> bool" where
  "BoolValue p = (case p of None \<Rightarrow> False | Some v \<Rightarrow> v)"

record Config =
  SocketPath :: string
  KernelImagePath :: string
  Drives :: "Drive list"
  JailerCfg :: JailerConfig

record Machine =
  cfg :: Config
  cmd :: "Cmd option"
  Handlers :: Handlers

definition chrootBaseDir_cfg :: "JailerConfig \<Rightarrow> string" where
  "chrootBaseDir_cfg c =
     (if length (ChrootBaseDir_cfg c) = 0 then defaultJailerPath else ChrootBaseDir_cfg c)"

definition rootDir :: "JailerConfig \<Rightarrow> string" where
  "rootDir c = filepath_Join [chrootBaseDir_cfg c, ''firecracker'', ID_cfg c, rootfsFolderName]"

text \<open>\<open>m.cmd.Process.Pid\<close> dereferences two pointers; either may be nil.\<close>

definition Process_Pid :: "Machine \<Rightarrow> int option" where
  "Process_Pid m = (case cmd m of None \<Rightarrow> None | Some c \<Rightarrow> Cmd_Process c)"


section \<open>The link strategy (jailer.go)\<close>

definition linkFileToRootFS ::
  "os \<Rightarrow> JailerConfig \<Rightarrow> string \<Rightarrow> string \<Rightarrow> syscall list \<Rightarrow> error option outcome \<times> syscall list" where
  "linkFileToRootFS env c dst src tr =
     (case do_call env (os_Link src dst) tr of
        (Some err, tr) \<Rightarrow> (Return (Some err), tr)
      | (None, tr) \<Rightarrow>
          (case UID_cfg c of
             None \<Rightarrow> (Panic, tr)
           | Some u \<Rightarrow>
               (case GID_cfg c of
                  None \<Rightarrow> (Panic, tr)
                | Some g \<Rightarrow> (case do_call env (os_Chown dst u g) tr of (r, tr) \<Rightarrow> (Return r, tr)))))"

text \<open>
  The loop \<open>for i, drive := range m.cfg.Drives\<close> of the link step: the result is the outcome,
  the drives as the loop leaves them, and the trace.
\<close>

fun LinkFiles_drives ::
  "os \<Rightarrow> JailerConfig \<Rightarrow> string \<Rightarrow> Drive list \<Rightarrow> syscall list \<Rightarrow>
   error option outcome \<times> Drive list \<times> syscall list" where
  "LinkFiles_drives env c rootfs [] tr = (Return None, [], tr)"
| "LinkFiles_drives env c rootfs (drive # rest) tr =
     (let hostPath = StringValue (PathOnHost drive);
          driveFileName = filepath_Base hostPath
      in case linkFileToRootFS env c (filepath_Join [rootfs, driveFileName]) hostPath tr of
           (r, tr) \<Rightarrow>
             if r \<noteq> Return None then (r, drive # rest, tr)
             else (case LinkFiles_drives env c rootfs rest tr of
                     (r, rest, tr) \<Rightarrow> (r, drive\<lparr>PathOnHost := Some driveFileName\<rparr> # rest, tr)))"

text \<open>The function of the handler that \<open>LinkFilesHandler rootfs kernelImageFileName\<close> makes.\<close>

definition LinkFilesHandler_Fn ::
  "os \<Rightarrow> string \<Rightarrow> string \<Rightarrow> Machine \<Rightarrow> syscall list \<Rightarrow>
   error option outcome \<times> Machine \<times> syscall list" where
  "LinkFilesHandler_Fn env rootfs kernelImageFileName m tr =
     (case linkFileToRootFS env (JailerCfg (cfg m))
             (filepath_Join [rootfs, kernelImageFileName]) (KernelImagePath (cfg m)) tr of
        (r, tr) \<Rightarrow>
          if r \<noteq> Return None then (r, m, tr)
          else (case LinkFiles_drives env (JailerCfg (cfg m)) rootfs (Drives (cfg m)) tr of
                  (r, drives, tr) \<Rightarrow>
                    let m = m\<lparr>cfg := (cfg m)\<lparr>Drives := drives\<rparr>\<rparr>
                    in if r \<noteq> Return None then (r, m, tr)
                       else (Return None,
                             m\<lparr>cfg := (cfg m)\<lparr>KernelImagePath := kernelImageFileName\<rparr>\<rparr>, tr)))"

definition LinkFilesHandler :: "string \<Rightarrow> string \<Rightarrow> Handler" where
  "LinkFilesHandler rootfs kernelImageFileName =
     \<lparr>Name = LinkFilesToRootFSHandlerName, Fn = LinkFilesFn rootfs kernelImageFileName\<rparr>"

definition ErrCreateMachineHandlerMissing :: error where
  "ErrCreateMachineHandlerMissing =
     Errorf (''%s is missing from FcInit'' @ [CHR 0x27] @ ''s list'') [ArgS CreateMachineHandlerName]"

definition NaiveDevMapperStrategy_AdaptHandlers ::
  "string \<Rightarrow> string \<Rightarrow> Handlers \<Rightarrow> error option \<times> Handlers" where
  "NaiveDevMapperStrategy_AdaptHandlers Rootfs KernelImagePath_s handlers =
     (if \<not> Has (FcInit handlers) CreateMachineHandlerName
      then (Some ErrCreateMachineHandlerMissing, handlers)
      else (None,
            handlers\<lparr>FcInit := AppendAfter (FcInit handlers) CreateMachineHandlerName
              (LinkFilesHandler (filepath_Join [Rootfs, rootfsFolderName])
                 (filepath_Base KernelImagePath_s))\<rparr>))"

section \<open>The bind-mount strategy (jailer.go)\<close>

definition BindMountDevMapperStrategy_AdaptHandlers ::
  "string \<Rightarrow> Handlers \<Rightarrow> error option \<times> Handlers" where
  "BindMountDevMapperStrategy_AdaptHandlers data handlers =
     (if \<not> Has (FcInit handlers) CreateMachineHandlerName
      then (Some ErrCreateMachineHandlerMissing, handlers)
      else let handlers = handlers\<lparr>FcInit := AppendAfter (FcInit handlers) CreateMachineHandlerName
                            \<lparr>Name = ''MountToRootFS'', Fn = MountToRootFSFn data\<rparr>\<rparr>;
               handlers = handlers\<lparr>Finish := Swappend (Finish handlers)
                            \<lparr>Name = ''finish.umountDrive'', Fn = UmountDriveFn\<rparr>\<rparr>
           in (None, handlers))"

text \<open>The interface call \<open>DevMapperStrategy.AdaptHandlers\<close> goes to the strategy's method.\<close>

fun AdaptHandlers :: "HandlersAdaptor \<Rightarrow> Handlers \<Rightarrow> error option \<times> Handlers" where
  "AdaptHandlers (NaiveDevMapperStrategy Rootfs KernelImagePath_s) handlers =
     NaiveDevMapperStrategy_AdaptHandlers Rootfs KernelImagePath_s handlers"
| "AdaptHandlers (BindMountDevMapperStrategy data) handlers =
     BindMountDevMapperStrategy_AdaptHandlers data handlers"

text \<open>
  The teardown step \<open>finish.umountDrive\<close>. The variable \<open>errs\<close> is a nil \<open>*multierror.Error\<close>;
  each \<open>multierror.Append(errs, err)\<close> is a statement of its own, whose returned pointer is
  not assigned to anything.
\<close>

fun umountDrive_drives ::
  "os \<Rightarrow> string \<Rightarrow> merr_ptr \<Rightarrow> Drive list \<Rightarrow> merr_store \<Rightarrow> syscall list \<Rightarrow> merr_store \<times> syscall list" where
  "umountDrive_drives env rootDir_v errs [] st tr = (st, tr)"
| "umountDrive_drives env rootDir_v errs (drive # rest) st tr =
     (case do_call env
             (syscall_Unmount (filepath_Join [rootDir_v, StringValue (PathOnHost drive)]) MNT_FORCE) tr of
        (r, tr) \<Rightarrow>
          let st = (case r of
                      Some err \<Rightarrow> (case multierror_Append st errs err of (st, returned) \<Rightarrow> st)
                    | None \<Rightarrow> st)
          in umountDrive_drives env rootDir_v errs rest st tr)"

definition umountDrive_Fn ::
  "os \<Rightarrow> Machine \<Rightarrow> syscall list \<Rightarrow> error option outcome \<times> Machine \<times> syscall list" where
  "umountDrive_Fn env m tr =
     (let rootDir_v = rootDir (JailerCfg (cfg m));
          kernelImagePath = filepath_Join [rootDir_v, KernelImagePath (cfg m)];
          errs = None;
          st = []
      in case do_call env (syscall_Unmount kernelImagePath MNT_FORCE) tr of
           (r, tr) \<Rightarrow>
             let st = (case r of
                         Some err \<Rightarrow> (case multierror_Append st errs err of (st, returned) \<Rightarrow> st)
                       | None \<Rightarrow> st)
             in case umountDrive_drives env rootDir_v errs (Drives (cfg m)) st tr of
                  (st, tr) \<Rightarrow> (Return (ErrorOrNil st errs), m, tr))"

definition nsenterBin :: string where "nsenterBin = ''nsenter''"

definition bindMount ::
  "os \<Rightarrow> string \<Rightarrow> string \<Rightarrow> int \<Rightarrow> int \<Rightarrow> int \<Rightarrow> syscall list \<Rightarrow> error option \<times> syscall list" where
  "bindMount env src target pid uid_v gid_v tr =
     (case do_call env (os_Stat src) tr of
        (r, tr) \<Rightarrow>
          if os_IsNotExist r then (Some (Errorf ''%s could not be found'' [ArgS src]), tr)
          else (case do_call env (Cmd_Run [nsenterBin, ''-t'', Itoa pid, ''sudo touch '' @ target]) tr of
                  (r, tr) \<Rightarrow>
                    if r \<noteq> None then (r, tr)
                    else do_call env
                           (Cmd_Run [nsenterBin, ''-m'', ''-t'', Itoa pid,
                                     ''sudo mount --bind '' @ src @ '' '' @ target]) tr))"

text \<open>The loop over the drives of the provisioning step \<open>MountToRootFS\<close>.\<close>

fun handler_drives ::
  "os \<Rightarrow> string \<Rightarrow> int \<Rightarrow> int \<Rightarrow> int \<Rightarrow> Drive list \<Rightarrow> syscall list \<Rightarrow>
   error option \<times> Drive list \<times> syscall list" where
  "handler_drives env rootDir_v pid uid_v gid_v [] tr = (None, [], tr)"
| "handler_drives env rootDir_v pid uid_v gid_v (drive # rest) tr =
     (let hostPath = StringValue (PathOnHost drive);
          driveFileName = filepath_Base hostPath;
          mountDriveFilePath = filepath_Join [rootDir_v, driveFileName]
      in case bindMount env (StringValue (PathOnHost drive)) mountDriveFilePath pid uid_v gid_v tr of
           (r, tr) \<Rightarrow>
             (case r of
                Some err \<Rightarrow>
                  (Some (Errorf ''failed to mount drive %q: %v'' [ArgQ mountDriveFilePath, ArgV err]),
                   drive # rest, tr)
              | None \<Rightarrow>
                  (case handler_drives env rootDir_v pid uid_v gid_v rest tr of
                     (r, rest, tr) \<Rightarrow> (r, drive\<lparr>PathOnHost := Some driveFileName\<rparr> # rest, tr))))"

definition handler ::
  "os \<Rightarrow> string \<Rightarrow> Machine \<Rightarrow> syscall list \<Rightarrow> error option outcome \<times> Machine \<times> syscall list" where
  "handler env data m tr =
     (let rootDir_v = rootDir (JailerCfg (cfg m));
          kernelImageName = filepath_Base (KernelImagePath (cfg m));
          kernelImagePath = filepath_Join [rootDir_v, kernelImageName]
      in case UID_cfg (JailerCfg (cfg m)) of
           None \<Rightarrow> (Panic, m, tr)
         | Some uid_v \<Rightarrow>
        (case GID_cfg (JailerCfg (cfg m)) of
           None \<Rightarrow> (Panic, m, tr)
         | Some gid_v \<Rightarrow>
        (case Process_Pid m of
           None \<Rightarrow> (Panic, m, tr)
         | Some pid \<Rightarrow>
        (case bindMount env (KernelImagePath (cfg m)) kernelImagePath pid uid_v gid_v tr of
           (r, tr) \<Rightarrow>
             (case r of
                Some err \<Rightarrow>
                  (Return (Some (Errorf ''failed to mount kernel image: %v'' [ArgV err])), m, tr)
              | None \<Rightarrow>
                  let m = m\<lparr>cfg := (cfg m)\<lparr>KernelImagePath := kernelImageName\<rparr>\<rparr>
                  in case handler_drives env rootDir_v pid uid_v gid_v (Drives (cfg m)) tr of
                       (r, drives, tr) \<Rightarrow>
                         (Return r, m\<lparr>cfg := (cfg m)\<lparr>Drives := drives\<rparr>\<rparr>, tr))))))"

section \<open>The entry point \<open>jail\<close> (jailer.go)\<close>

text \<open>
  \<open>jail\<close> writes through its two pointers: the result is the outcome, the machine and the
  configuration as the call leaves them. It writes \<open>m.cmd\<close> and \<open>m.Handlers\<close> through the
  first and \<open>cfg.SocketPath\<close> through the second; these are different fields, so the
  configuration after the call is the same whether or not \<open>cfg\<close> points into \<open>m\<close>. The
  dereferences of \<open>UID\<close>, \<open>GID\<close> and \<open>NumaNode\<close> in the chain of setters come after the
  assignment of the socket path and before the assignment of \<open>m.cmd\<close>.
\<close>

definition jail :: "Machine \<Rightarrow> Config \<Rightarrow> error option outcome \<times> Machine \<times> Config" where
  "jail m c =
     (let chroot = chrootBaseDir_cfg (JailerCfg c);
          rootfs = filepath_Join [chroot, ''firecracker'', ID_cfg (JailerCfg c)];
          c = c\<lparr>SocketPath := filepath_Join [rootfs, ''api.socket'']\<rparr>
      in case UID_cfg (JailerCfg c) of
           None \<Rightarrow> (Panic, m, c)
         | Some u \<Rightarrow>
        (case GID_cfg (JailerCfg c) of
           None \<Rightarrow> (Panic, m, c)
         | Some g \<Rightarrow>
        (case NumaNode_cfg (JailerCfg c) of
           None \<Rightarrow> (Panic, m, c)
         | Some n \<Rightarrow>
             let m = m\<lparr>cmd := Some (Build
                        (WithStderr (Some os_Stderr)
                        (WithStdout (Some os_Stdout)
                        (WithSeccompLevel (SeccompLevel_cfg (JailerCfg c))
                        (WithDaemonize (Daemonize (JailerCfg c))
                        (WithChrootBaseDir (ChrootBaseDir_cfg (JailerCfg c))
                        (WithExecFile (ExecFile_cfg (JailerCfg c))
                        (WithNumaNode n
                        (WithGID g
                        (WithUID u
                        (WithID (ID_cfg (JailerCfg c)) JailerCommandBuilder_zero)))))))))))\<rparr>
             in case DevMapperStrategy (JailerCfg c) of
                  None \<Rightarrow> (Panic, m, c)
                | Some s \<Rightarrow>
                    (case AdaptHandlers s (Handlers m) of
                       (err, handlers) \<Rightarrow> (Return err, m\<lparr>Handlers := handlers\<rparr>, c)))))"


section \<open>The namespace mounter (mount.go)\<close>

text \<open>
  What the mounter changes besides making calls is the state of the calling thread: the mount
  namespace the thread is associated with, and how many times the goroutine has locked itself
  to the thread. \<open>runtime.LockOSThread\<close> counts one up; \<open>runtime.UnlockOSThread\<close> counts one
  down and does nothing at zero. A successful \<open>unix.Setns\<close> associates the thread with the
  namespace that the open handle refers to; \<open>ns_at\<close> tells which namespace a handle path
  refers to.
\<close>

record thread =
  ns :: nat
  locks :: nat

definition LockOSThread :: "thread \<Rightarrow> thread" where
  "LockOSThread th = th\<lparr>locks := locks th + 1\<rparr>"



record mounter =
  mounter_UID :: int
  mounter_GID :: int
  NSType :: string


text \<open>
  \<open>Mount\<close> after the target file has been created: the statements that run before the
  deferred \<open>f.Close()\<close>.
\<close>

definition Mount_created ::
  "os \<Rightarrow> mounter \<Rightarrow> string \<Rightarrow> string \<Rightarrow> bool \<Rightarrow> syscall list \<Rightarrow> error option \<times> syscall list" where
  "Mount_created env m src target readOnly tr =
     (case do_call env (syscall_Mount src target ''bind'' MS_BIND []) tr of
        (r, tr) \<Rightarrow>
          (case r of
             Some err \<Rightarrow> (Some (Errorf ''Failed to mount %q: %v'' [ArgQ target, ArgV err]), tr)
           | None \<Rightarrow>
               (case do_call env (os_Chown target (mounter_UID m) (mounter_GID m)) tr of
                  (r, tr) \<Rightarrow>
                    (case r of
                       Some err \<Rightarrow>
                         (Some (Errorf ''Failed to change ownership for %q: %v''
                                  [ArgQ target, ArgV err]), tr)
                     | None \<Rightarrow>
                         if readOnly
                         then (case do_call env
                                      (syscall_Mount src target ''bind''
                                         (MS_BIND OR MS_REMOUNT OR MS_RDONLY) []) tr of
                                 (r, tr) \<Rightarrow>
                                   (case r of
                                      Some err \<Rightarrow>
                                        (Some (Errorf ''Failed to mount %q: %v''
                                                 [ArgQ target, ArgV err]), tr)
                                    | None \<Rightarrow> (None, tr)))
                         else (None, tr)))))"

definition Mount ::
  "os \<Rightarrow> mounter \<Rightarrow> string \<Rightarrow> string \<Rightarrow> bool \<Rightarrow> thread \<times> syscall list \<Rightarrow>
   error option \<times> thread \<times> syscall list" where
  "Mount env m src target readOnly w =
     (case w of
        (th, tr) \<Rightarrow>
          let th = LockOSThread th
          in case do_call env (os_Create target) tr of
               (r, tr) \<Rightarrow>
                 (case r of
                    Some err \<Rightarrow> (Some (Errorf ''Failed to create %q: %v'' [ArgQ target, ArgV err]), th, tr)
                  | None \<Rightarrow>
                      (case Mount_created env m src target readOnly tr of
                         (r, tr) \<Rightarrow> (r, th, snd (do_call env (File_Close target) tr)))))"





section \<open>Vocabulary of the properties\<close>

text \<open>
  Performing a list of calls in order and stopping at the first one that fails: the result is
  the error of the failed call, or \<open>None\<close> when every call succeeded, and the trace.
\<close>

fun attempt :: "os \<Rightarrow> syscall list \<Rightarrow> syscall list \<Rightarrow> error option \<times> syscall list" where
  "attempt env [] tr = (None, tr)"
| "attempt env (c # cs) tr =
     (case env tr c of
        Some err \<Rightarrow> (Some err, tr @ [c])
      | None \<Rightarrow> attempt env cs (tr @ [c]))"

text \<open>
  The two calls that place one artifact in the jail by linking, the calls for one drive, the
  calls for the kernel image and then every drive, and a drive whose host path has been
  rewritten to its base name.
\<close>

definition link_calls :: "string \<Rightarrow> int \<Rightarrow> int \<Rightarrow> string \<Rightarrow> string \<Rightarrow> syscall list" where
  "link_calls rootfs u g src name =
     [os_Link src (filepath_Join [rootfs, name]), os_Chown (filepath_Join [rootfs, name]) u g]"

definition drive_link_calls :: "string \<Rightarrow> int \<Rightarrow> int \<Rightarrow> Drive \<Rightarrow> syscall list" where
  "drive_link_calls rootfs u g drive =
     link_calls rootfs u g (StringValue (PathOnHost drive))
       (filepath_Base (StringValue (PathOnHost drive)))"

definition all_link_calls :: "string \<Rightarrow> string \<Rightarrow> int \<Rightarrow> int \<Rightarrow> Config \<Rightarrow> syscall list" where
  "all_link_calls rootfs kernelImageFileName u g c =
     link_calls rootfs u g (KernelImagePath c) kernelImageFileName
     @ concat (map (drive_link_calls rootfs u g) (Drives c))"

definition rewritten :: "Drive \<Rightarrow> Drive" where
  "rewritten drive = drive\<lparr>PathOnHost := Some (filepath_Base (StringValue (PathOnHost drive)))\<rparr>"

text \<open>
  The drives after a failed link step that made \<open>n\<close> calls. Calls 0 and 1 are the kernel
  image's, calls \<open>2 + 2 * k\<close> and \<open>3 + 2 * k\<close> are those of drive \<open>k\<close>; the last call made,
  call \<open>n - 1\<close>, is the one that failed, so the drives before drive \<open>(n - 3) div 2\<close> have
  been rewritten and the others have not.
\<close>

definition drives_on_failure :: "nat \<Rightarrow> Drive list \<Rightarrow> Drive list" where
  "drives_on_failure n ds =
     map rewritten (take ((n - 3) div 2) ds) @ drop ((n - 3) div 2) ds"

text \<open>
  The elements that \<open>filepath.Clean\<close> keeps of a path, in order; a plain element is a name
  that is neither empty nor \<open>.\<close> nor \<open>..\<close> and has no separator. What Clean keeps has the
  shape \<open>kept\<close>: some \<open>..\<close> (none when the path is rooted), then plain elements.
\<close>

definition path_elements :: "string \<Rightarrow> string list" where
  "path_elements path = foldl (clean_step (IsPathSeparator (hd path))) [] (split_sep path)"

definition plain_element :: "string \<Rightarrow> bool" where
  "plain_element e = (e \<noteq> [] \<and> e \<noteq> ''.'' \<and> e \<noteq> ''..'' \<and> CHR ''/'' \<notin> set e)"

definition kept :: "bool \<Rightarrow> string list \<Rightarrow> bool" where
  "kept rooted cs = (\<exists>n rest. cs = replicate n ''..'' @ rest \<and> (\<forall>e\<in>set rest. plain_element e)
                      \<and> (rooted \<longrightarrow> n = 0))"

text \<open>The unmount call of the teardown step for one path below the jail's root directory.\<close>

definition unmount_call :: "JailerConfig \<Rightarrow> string \<Rightarrow> syscall" where
  "unmount_call c path = syscall_Unmount (filepath_Join [rootDir c, path]) MNT_FORCE"

text \<open>
  Operating systems for the examples: one on which every call succeeds, and one on which
  exactly the calls of a given list fail.
\<close>

definition os_ok :: os where
  "os_ok tr c = None"

definition os_failing :: "syscall list \<Rightarrow> nat \<Rightarrow> string \<Rightarrow> os" where
  "os_failing bad errno msg tr c = (if c \<in> set bad then Some (OSError errno msg) else None)"

text \<open>
  Two more operating systems for the examples. On the first a call fails exactly when the
  same call has been made before, as a second link to the same name does. On the second no
  file can be opened for reading and writing, as is the case of namespace handles, which are
  immutable files.
\<close>

definition os_once :: os where
  "os_once tr c = (if c \<in> set tr then Some (OSError 17 ''file exists'') else None)"



text \<open>A configuration and a machine for the examples.\<close>

definition example_JailerConfig :: JailerConfig where
  "example_JailerConfig =
     \<lparr>GID_cfg = Some 100, UID_cfg = Some 123, ID_cfg = ''test-id'', NumaNode_cfg = Some 0,
      ExecFile_cfg = ''/usr/local/bin/firecracker'', ChrootBaseDir_cfg = [], NetNS_cfg = [],
      Daemonize = False, SeccompLevel_cfg = SeccompLevelDisable,
      DevMapperStrategy = Some (NaiveDevMapperStrategy ''/srv/jailer/firecracker/test-id''
                                  ''/img/vmlinux'')\<rparr>"

definition example_Config :: Config where
  "example_Config =
     \<lparr>SocketPath = ''/tmp/firecracker.sock'', KernelImagePath = ''/img/vmlinux'',
      Drives = [\<lparr>PathOnHost = Some ''/data/disk.img'', IsReadOnly = Some True\<rparr>],
      JailerCfg = example_JailerConfig\<rparr>"

definition example_Machine :: Machine where
  "example_Machine =
     \<lparr>cfg = example_Config,
      cmd = Some \<lparr>Cmd_Args = [''jailer''], Cmd_Stdin = None, Cmd_Stdout = None,
                  Cmd_Stderr = None, Cmd_Process = Some 4242\<rparr>,
      Handlers = \<lparr>FcInit = [\<lparr>Name = ''fcinit.SetupNetwork'', Fn = CallerFn 0\<rparr>],
                  Finish = []\<rparr>\<rparr>"


section \<open>Lemmas\<close>

lemmas path_eval = filepath_Join.simps filepath_Clean_def clean_step_def IsPathSeparator_def
  filepath_Base_def

lemma attempt_append:
  "attempt env (xs @ ys) tr =
     (case attempt env xs tr of (None, tr1) \<Rightarrow> attempt env ys tr1 | (Some e, tr1) \<Rightarrow> (Some e, tr1))"
  by (induction xs arbitrary: tr) (auto split: option.splits)

lemma attempt_success: "attempt env cs tr = (None, tr1) \<Longrightarrow> tr1 = tr @ cs"
proof (induction cs arbitrary: tr)
  case Nil
  then show ?case by simp
next
  case (Cons c cs)
  show ?case
  proof (cases "env tr c")
    case None
    with Cons.prems have "attempt env cs (tr @ [c]) = (None, tr1)" by simp
    from Cons.IH [OF this] show ?thesis by simp
  next
    case (Some a)
    with Cons.prems show ?thesis by auto
  qed
qed

lemma attempt_error_length: "attempt env cs tr = (Some e, tr1) \<Longrightarrow> length tr < length tr1"
proof (induction cs arbitrary: tr)
  case Nil
  then show ?case by simp
next
  case (Cons c cs)
  show ?case
  proof (cases "env tr c")
    case None
    with Cons.prems have "attempt env cs (tr @ [c]) = (Some e, tr1)" by simp
    from Cons.IH [OF this] show ?thesis by simp
  next
    case (Some a)
    with Cons.prems show ?thesis by auto
  qed
qed

lemma attempt_error_bound: "attempt env cs tr = (Some e, tr1) \<Longrightarrow> length tr1 \<le> length tr + length cs"
proof (induction cs arbitrary: tr)
  case Nil
  then show ?case by simp
next
  case (Cons c cs)
  show ?case
  proof (cases "env tr c")
    case None
    with Cons.prems have "attempt env cs (tr @ [c]) = (Some e, tr1)" by simp
    from Cons.IH [OF this] show ?thesis by simp
  next
    case (Some a)
    with Cons.prems show ?thesis by auto
  qed
qed

lemma linkFileToRootFS_attempt:
  "UID_cfg c = Some u \<Longrightarrow> GID_cfg c = Some g \<Longrightarrow>
   linkFileToRootFS env c (filepath_Join [rootfs, name]) src tr =
     (case attempt env (link_calls rootfs u g src name) tr of (e, tr1) \<Rightarrow> (Return e, tr1))"
  by (simp add: linkFileToRootFS_def link_calls_def do_call_def split: option.splits)


lemma attempt_all_succeed:
  "(\<forall>h c. c \<in> set cs \<longrightarrow> env h c = None) \<Longrightarrow> attempt env cs tr = (None, tr @ cs)"
  by (induction cs arbitrary: tr) simp_all

lemma attempt_error_position:
  "attempt env cs tr = (Some e, tr1) \<Longrightarrow>
   \<exists>n. n < length cs \<and> tr1 = tr @ take (Suc n) cs \<and> env (tr @ take n cs) (cs ! n) = Some e
       \<and> (\<forall>i<n. env (tr @ take i cs) (cs ! i) = None)"
proof (induction cs arbitrary: tr)
  case Nil
  then show ?case by simp
next
  case (Cons c cs)
  show ?case
  proof (cases "env tr c")
    case None
    with Cons.prems have "attempt env cs (tr @ [c]) = (Some e, tr1)" by simp
    from Cons.IH [OF this] obtain n where n: "n < length cs" "tr1 = (tr @ [c]) @ take (Suc n) cs"
      "env ((tr @ [c]) @ take n cs) (cs ! n) = Some e"
      "\<forall>i<n. env ((tr @ [c]) @ take i cs) (cs ! i) = None" by blast
    have "\<forall>i<Suc n. env (tr @ take i (c # cs)) ((c # cs) ! i) = None"
    proof (intro allI impI)
      fix i assume "i < Suc n"
      then show "env (tr @ take i (c # cs)) ((c # cs) ! i) = None"
        using None n(4) by (cases i) simp_all
    qed
    with n(1-3) show ?thesis by (intro exI [of _ "Suc n"]) simp
  next
    case (Some a)
    with Cons.prems show ?thesis by (intro exI [of _ 0]) auto
  qed
qed

lemma LinkFiles_drives_attempt:
  assumes "UID_cfg c = Some u" and "GID_cfg c = Some g"
  shows "attempt env (concat (map (drive_link_calls rootfs u g) ds)) tr = (e, tr1) \<Longrightarrow>
     LinkFiles_drives env c rootfs ds tr =
       (Return e,
        if e = None then map rewritten ds else drives_on_failure (length tr1 - length tr + 2) ds,
        tr1)"
proof (induction ds arbitrary: tr)
  case Nil
  then show ?case by (auto simp: drives_on_failure_def)
next
  case (Cons d ds)
  let ?dc = "drive_link_calls rootfs u g d"
  obtain e0 tr0 where a0: "attempt env ?dc tr = (e0, tr0)" by (cases "attempt env ?dc tr")
  have lf: "linkFileToRootFS env c (filepath_Join [rootfs, filepath_Base (StringValue (PathOnHost d))])
              (StringValue (PathOnHost d)) tr = (Return e0, tr0)"
    using a0 by (simp add: linkFileToRootFS_attempt [OF assms] drive_link_calls_def)
  show ?case
  proof (cases e0)
    case None
    with a0 have tr0: "tr0 = tr @ ?dc" by (simp add: attempt_success)
    from Cons.prems a0 None
    have rest: "attempt env (concat (map (drive_link_calls rootfs u g) ds)) tr0 = (e, tr1)"
      by (simp add: attempt_append)
    note ih = Cons.IH [OF rest]
    have len0: "length tr0 = length tr + 2"
      using tr0 by (simp add: drive_link_calls_def link_calls_def)
    have da: "e \<noteq> None \<Longrightarrow> drives_on_failure (length tr1 - length tr + 2) (d # ds) =
                rewritten d # drives_on_failure (length tr1 - length tr0 + 2) ds"
    proof -
      assume "e \<noteq> None"
      then obtain err where "e = Some err" by auto
      with rest have "length tr0 < length tr1" by (simp add: attempt_error_length)
      then obtain j where j: "length tr1 - length tr0 = Suc j" by (metis Suc_diff_Suc)
      then have "length tr1 - length tr = Suc (Suc (Suc j))" using len0 by simp
      with j show ?thesis by (simp add: drives_on_failure_def)
    qed
    show ?thesis using lf None ih da by (simp add: Let_def rewritten_def)
  next
    case (Some err)
    with Cons.prems a0 have eq: "e = Some err" "tr1 = tr0" by (simp_all add: attempt_append)
    from a0 Some have a1: "attempt env ?dc tr = (Some err, tr0)" by simp
    have "length ?dc = 2" by (simp add: drive_link_calls_def link_calls_def)
    with attempt_error_length [OF a1] attempt_error_bound [OF a1]
    have "length tr < length tr0" "length tr0 \<le> length tr + 2" by simp_all
    then have "(length tr0 - length tr + 2 - 3) div 2 = 0" by simp
    then show ?thesis using lf Some eq by (simp add: Let_def drives_on_failure_def)
  qed
qed

lemma LinkFilesHandler_Fn_attempt:
  assumes "UID_cfg (JailerCfg (cfg m)) = Some u" and "GID_cfg (JailerCfg (cfg m)) = Some g"
    and "attempt env (all_link_calls rootfs kernelImageFileName u g (cfg m)) tr = (e, tr1)"
  shows "LinkFilesHandler_Fn env rootfs kernelImageFileName m tr =
     (Return e,
      if e = None
      then m\<lparr>cfg := (cfg m)\<lparr>Drives := map rewritten (Drives (cfg m)),
                             KernelImagePath := kernelImageFileName\<rparr>\<rparr>
      else m\<lparr>cfg := (cfg m)\<lparr>Drives := drives_on_failure (length tr1 - length tr) (Drives (cfg m))\<rparr>\<rparr>,
      tr1)"
proof -
  let ?kc = "link_calls rootfs u g (KernelImagePath (cfg m)) kernelImageFileName"
  let ?dcs = "concat (map (drive_link_calls rootfs u g) (Drives (cfg m)))"
  obtain e0 tr0 where a0: "attempt env ?kc tr = (e0, tr0)" by (cases "attempt env ?kc tr")
  have lf: "linkFileToRootFS env (JailerCfg (cfg m)) (filepath_Join [rootfs, kernelImageFileName])
              (KernelImagePath (cfg m)) tr = (Return e0, tr0)"
    using a0 by (simp add: linkFileToRootFS_attempt [OF assms(1,2)])
  have len: "length ?kc = 2" by (simp add: link_calls_def)
  show ?thesis
  proof (cases e0)
    case None
    with a0 have tr0: "tr0 = tr @ ?kc" by (simp add: attempt_success)
    from assms(3) a0 None have rest: "attempt env ?dcs tr0 = (e, tr1)"
      by (simp add: all_link_calls_def attempt_append)
    have len0: "length tr0 = length tr + 2" using tr0 len by simp
    have "e \<noteq> None \<Longrightarrow> length tr1 - length tr0 + 2 = length tr1 - length tr"
    proof -
      assume "e \<noteq> None"
      then obtain err where "e = Some err" by auto
      with rest have "length tr0 < length tr1" by (simp add: attempt_error_length)
      with len0 show ?thesis by simp
    qed
    with LinkFiles_drives_attempt [OF assms(1,2) rest] lf None show ?thesis
      by (simp add: LinkFilesHandler_Fn_def Let_def)
  next
    case (Some err)
    with assms(3) a0 have eq: "e = Some err" "tr1 = tr0"
      by (simp_all add: all_link_calls_def attempt_append)
    from a0 Some have a1: "attempt env ?kc tr = (Some err, tr0)" by simp
    from attempt_error_length [OF a1] attempt_error_bound [OF a1] len
    have "(length tr0 - length tr - 3) div 2 = 0" by simp
    then show ?thesis using lf Some eq
      by (simp add: LinkFilesHandler_Fn_def Let_def drives_on_failure_def)
  qed
qed

lemma attempt_first_failure:
  "n < length cs \<Longrightarrow> (\<forall>i<n. env (tr @ take i cs) (cs ! i) = None) \<Longrightarrow>
   env (tr @ take n cs) (cs ! n) = Some e \<Longrightarrow>
   attempt env cs tr = (Some e, tr @ take (Suc n) cs)"
proof (induction cs arbitrary: tr n)
  case Nil
  then show ?case by simp
next
  case (Cons c cs)
  show ?case
  proof (cases n)
    case 0
    with Cons.prems show ?thesis by simp
  next
    case (Suc k)
    with Cons.prems have c: "env tr c = None" by force
    have k: "k < length cs" using Cons.prems(1) Suc by simp
    have ok: "\<forall>i<k. env ((tr @ [c]) @ take i cs) (cs ! i) = None"
    proof (intro allI impI)
      fix i assume "i < k"
      then have "Suc i < n" using Suc by simp
      with Cons.prems(2) have "env (tr @ take (Suc i) (c # cs)) ((c # cs) ! Suc i) = None" by blast
      then show "env ((tr @ [c]) @ take i cs) (cs ! i) = None" by simp
    qed
    have bad: "env ((tr @ [c]) @ take k cs) (cs ! k) = Some e"
      using Cons.prems(3) Suc by simp
    from Cons.IH [OF k ok bad] c Suc show ?thesis by simp
  qed
qed

lemma ErrorOrNil_nil: "ErrorOrNil st None = None"
  by (simp add: ErrorOrNil_def)

lemma umountDrive_drives_trace:
  "snd (umountDrive_drives env rootDir_v errs ds st tr) =
     tr @ map (\<lambda>drive. syscall_Unmount (filepath_Join [rootDir_v, StringValue (PathOnHost drive)])
                        MNT_FORCE) ds"
  by (induction ds arbitrary: st tr) (simp_all add: do_call_def Let_def split: prod.splits)

lemma umountDrive_Fn_never_fails:
  "umountDrive_Fn env m tr =
     (Return None, m,
      tr @ unmount_call (JailerCfg (cfg m)) (KernelImagePath (cfg m))
           # map (\<lambda>drive. unmount_call (JailerCfg (cfg m)) (StringValue (PathOnHost drive)))
               (Drives (cfg m)))"
proof -
  let ?rd = "rootDir (JailerCfg (cfg m))"
  let ?k = "syscall_Unmount (filepath_Join [?rd, KernelImagePath (cfg m)]) MNT_FORCE"
  let ?st = "case env tr ?k of
               Some err \<Rightarrow> (case multierror_Append [] None err of (st, returned) \<Rightarrow> st)
             | None \<Rightarrow> []"
  obtain st2 tr2 where d: "umountDrive_drives env ?rd None (Drives (cfg m)) ?st (tr @ [?k]) = (st2, tr2)"
    by (cases "umountDrive_drives env ?rd None (Drives (cfg m)) ?st (tr @ [?k])")
  from umountDrive_drives_trace [of env ?rd None "Drives (cfg m)" ?st "tr @ [?k]"] d
  have tr2: "tr2 = (tr @ [?k]) @ map (\<lambda>drive. syscall_Unmount
      (filepath_Join [?rd, StringValue (PathOnHost drive)]) MNT_FORCE) (Drives (cfg m))"
    by simp
  have "umountDrive_Fn env m tr = (Return (ErrorOrNil st2 None), m, tr2)"
    using d by (simp add: umountDrive_Fn_def Let_def do_call_def)
  then show ?thesis
    by (simp add: tr2 ErrorOrNil_nil unmount_call_def)
qed

lemma handler_drives_ignores_IsReadOnly:
  "handler_drives env rootDir_v pid u g (map (\<lambda>d. d\<lparr>IsReadOnly := ro\<rparr>) ds) tr =
     (case handler_drives env rootDir_v pid u g ds tr of
        (r, ds', tr') \<Rightarrow> (r, map (\<lambda>d. d\<lparr>IsReadOnly := ro\<rparr>) ds', tr'))"
  by (induction ds arbitrary: tr) (simp_all add: Let_def split: prod.splits option.splits)

lemma Mount_readOnly_remounts:
  "Mount os_ok m src target True (th, tr) =
     (None, LockOSThread th,
      tr @ [os_Create target,
            syscall_Mount src target ''bind'' MS_BIND [],
            os_Chown target (mounter_UID m) (mounter_GID m),
            syscall_Mount src target ''bind'' (MS_BIND OR MS_REMOUNT OR MS_RDONLY) [],
            File_Close target])"
  by (simp add: Mount_def Mount_created_def do_call_def os_ok_def Let_def)




lemma LinkFilesHandler_Fn_failure_keeps_kernel_path:
  "LinkFilesHandler_Fn env rootfs kernelImageFileName m tr = (r, m', tr') \<Longrightarrow>
   r \<noteq> Return None \<Longrightarrow> KernelImagePath (cfg m') = KernelImagePath (cfg m)"
  by (auto simp: LinkFilesHandler_Fn_def Let_def split: prod.splits if_splits)

lemma split_sep_nonempty: "split_sep p \<noteq> []"
  by (induction p) (auto simp: IsPathSeparator_def split: list.splits)

lemma split_sep_append:
  "split_sep (x @ CHR ''/'' # y) = split_sep x @ split_sep y"
proof (induction x)
  case Nil
  then show ?case by (simp add: IsPathSeparator_def)
next
  case (Cons c x)
  obtain e es where s: "split_sep x = e # es"
    using split_sep_nonempty [of x] by (cases "split_sep x") auto
  with Cons show ?case by (simp add: IsPathSeparator_def)
qed

lemma split_sep_no_sep: "CHR ''/'' \<notin> set e \<Longrightarrow> split_sep e = [e]"
  by (induction e) (auto simp: IsPathSeparator_def)

lemma split_sep_elements: "e \<in> set (split_sep p) \<Longrightarrow> CHR ''/'' \<notin> set e"
proof (induction p arbitrary: e)
  case Nil
  then show ?case by simp
next
  case (Cons c p)
  obtain a as where s: "split_sep p = a # as"
    using split_sep_nonempty [of p] by (cases "split_sep p") auto
  show ?case
  proof (cases "c = CHR ''/''")
    case True
    with Cons.prems have "e = [] \<or> e \<in> set (split_sep p)" by (simp add: IsPathSeparator_def)
    with Cons.IH show ?thesis by auto
  next
    case False
    with Cons.prems s have "e = c # a \<or> e \<in> set as" by (simp add: IsPathSeparator_def)
    moreover have "CHR ''/'' \<notin> set a" using Cons.IH [of a] s by simp
    moreover have "\<And>x. x \<in> set as \<Longrightarrow> CHR ''/'' \<notin> set x" using Cons.IH s by simp
    ultimately show ?thesis using False by auto
  qed
qed

lemma kept_step:
  assumes "kept rooted out" and "CHR ''/'' \<notin> set e"
  shows "kept rooted (clean_step rooted out e)"
proof -
  from assms(1) obtain n rest where o: "out = replicate n ''..'' @ rest"
    "\<forall>e\<in>set rest. plain_element e" "rooted \<longrightarrow> n = 0" by (auto simp: kept_def)
  show ?thesis
  proof (cases "e = [] \<or> e = ''.''")
    case True
    with assms(1) show ?thesis by (simp add: clean_step_def)
  next
    case False
    note ne = this
    show ?thesis
    proof (cases "e = ''..''")
      case False
      with ne assms(2) have "plain_element e" by (simp add: plain_element_def)
      with o have "out @ [e] = replicate n ''..'' @ (rest @ [e])" "\<forall>x\<in>set (rest @ [e]). plain_element x"
        by auto
      with o(3) have "kept rooted (out @ [e])" unfolding kept_def by blast
      with False ne show ?thesis by (simp add: clean_step_def)
    next
      case True
      show ?thesis
      proof (cases "rest = []")
        case False
        then have l: "last out = last rest" "butlast out = replicate n ''..'' @ butlast rest"
          using o(1) by (simp_all add: butlast_append)
        from False o(2) have "plain_element (last rest)" by simp
        then have "last out \<noteq> ''..''" using l by (auto simp: plain_element_def)
        moreover have "out \<noteq> []" using False o(1) by simp
        moreover have "\<forall>x\<in>set (butlast rest). plain_element x"
          using o(2) by (auto dest: in_set_butlastD)
        then have "kept rooted (butlast out)" using l(2) o(3) unfolding kept_def by blast
        ultimately show ?thesis using True by (simp add: clean_step_def)
      next
        case rest: True
        then have out: "out = replicate n ''..''" using o(1) by simp
        then have c: "out = [] \<or> last out = ''..''" by (cases n) auto
        show ?thesis
        proof (cases rooted)
          case True
          with o(3) out have "out = []" by simp
          with True \<open>e = ''..''\<close> assms(1) show ?thesis by (simp add: clean_step_def)
        next
          case False
          have "out @ [''..''] = replicate (Suc n) ''..'' @ []"
            using out by (simp add: replicate_append_same)
          then have "kept rooted (out @ [''..''])" using False unfolding kept_def
            by (intro exI [of _ "Suc n"] exI [of _ "[]"]) simp
          with c False \<open>e = ''..''\<close> show ?thesis by (auto simp: clean_step_def)
        qed
      qed
    qed
  qed
qed

lemma kept_foldl:
  "kept rooted out \<Longrightarrow> (\<forall>e\<in>set es. CHR ''/'' \<notin> set e) \<Longrightarrow>
   kept rooted (foldl (clean_step rooted) out es)"
  by (induction es arbitrary: out) (simp_all add: kept_step)

lemma kept_path_elements: "kept (IsPathSeparator (hd p)) (path_elements p)"
  unfolding path_elements_def
  by (rule kept_foldl) (auto simp: kept_def dest: split_sep_elements)


lemma kept_element: "kept rooted cs \<Longrightarrow> e \<in> set cs \<Longrightarrow> e = ''..'' \<or> plain_element e"
  by (auto simp: kept_def)

lemma kept_dotdot_prefix:
  assumes "kept rooted (out @ ''..'' # es)"
  shows "\<not> rooted \<and> (out = [] \<or> last out = ''..'')"
proof -
  from assms obtain n rest where o: "out @ ''..'' # es = replicate n ''..'' @ rest"
    "\<forall>e\<in>set rest. plain_element e" "rooted \<longrightarrow> n = 0" by (auto simp: kept_def)
  have lt: "length out < n"
  proof (rule ccontr)
    assume "\<not> length out < n"
    then have "(replicate n ''..'' @ rest) ! length out = rest ! (length out - n)"
      by (simp add: nth_append)
    moreover have "(out @ ''..'' # es) ! length out = ''..''" by simp
    moreover have "length out - n < length rest"
    proof -
      have "length (out @ ''..'' # es) = length (replicate n ''..'' @ rest)" using o(1) by simp
      with \<open>\<not> length out < n\<close> show ?thesis by simp
    qed
    ultimately have "''..'' \<in> set rest" using o(1) by (metis nth_mem)
    with o(2) show False by (auto simp: plain_element_def)
  qed
  then have "take (length out) (out @ ''..'' # es) = take (length out) (replicate n ''..'' @ rest)"
    using o(1) by simp
  with lt have out: "out = replicate (length out) ''..''" by (simp add: min_def)
  have "out = [] \<or> last out = ''..''"
  proof (cases "length out")
    case 0
    then show ?thesis by simp
  next
    case (Suc k)
    with out have "out = replicate (Suc k) ''..''" by simp
    then show ?thesis by (metis last_replicate nat.distinct(1))
  qed
  moreover from lt o(3) have "\<not> rooted" by auto
  ultimately show ?thesis by simp
qed

lemma foldl_clean_step_kept:
  "kept rooted (out @ cs) \<Longrightarrow> foldl (clean_step rooted) out cs = out @ cs"
proof (induction cs arbitrary: out)
  case Nil
  then show ?case by simp
next
  case (Cons e es)
  have step: "clean_step rooted out e = out @ [e]"
  proof (cases "e = ''..''")
    case True
    with Cons.prems kept_dotdot_prefix [of rooted out es] show ?thesis
      by (auto simp: clean_step_def)
  next
    case False
    with kept_element [OF Cons.prems, of e] have "plain_element e" by simp
    then show ?thesis by (auto simp: clean_step_def plain_element_def)
  qed
  from Cons.prems have "kept rooted ((out @ [e]) @ es)" by simp
  from Cons.IH [OF this] step show ?case by simp
qed

lemma kept_no_sep: "kept rooted cs \<Longrightarrow> e \<in> set cs \<Longrightarrow> CHR ''/'' \<notin> set e"
  using kept_element [of rooted cs e] by (auto simp: plain_element_def)

lemma split_sep_strings_Join:
  "cs \<noteq> [] \<Longrightarrow> (\<forall>e\<in>set cs. CHR ''/'' \<notin> set e) \<Longrightarrow> split_sep (strings_Join cs ''/'') = cs"
proof (induction cs "''/''" rule: strings_Join.induct)
  case 1
  then show ?case by simp
next
  case (2 e)
  then show ?case by (simp add: split_sep_no_sep)
next
  case (3 e v va)
  then have "split_sep (strings_Join (v # va) ''/'') = v # va" by simp
  moreover have "split_sep e = [e]" using 3 by (simp add: split_sep_no_sep)
  ultimately show ?case using split_sep_append [of e "strings_Join (v # va) ''/''"] by simp
qed

lemma hd_strings_Join:
  "cs \<noteq> [] \<Longrightarrow> hd cs \<noteq> [] \<Longrightarrow> hd (strings_Join cs sep) = hd (hd cs)"
  by (cases "(cs, sep)" rule: strings_Join.cases) auto

lemma path_elements_Clean:
  assumes "p \<noteq> []"
  shows "path_elements (filepath_Clean p) = path_elements p"
proof -
  let ?r = "IsPathSeparator (hd p)"
  let ?cs = "path_elements p"
  have k: "kept ?r ?cs" by (rule kept_path_elements)
  have ns: "\<forall>e\<in>set ?cs. CHR ''/'' \<notin> set e" using kept_no_sep [OF k] by blast
  have fold: "foldl (clean_step ?r) [] ?cs = ?cs"
    using foldl_clean_step_kept [of ?r "[]" ?cs] k by simp
  show ?thesis
  proof (cases ?r)
    case True
    then have c: "filepath_Clean p = CHR ''/'' # strings_Join ?cs ''/''"
      using assms by (simp add: filepath_Clean_def path_elements_def Let_def)
    have "split_sep (CHR ''/'' # strings_Join ?cs ''/'') = [] # split_sep (strings_Join ?cs ''/'')"
      by (simp add: IsPathSeparator_def)
    moreover have "foldl (clean_step True) [] (split_sep (strings_Join ?cs ''/'')) = ?cs"
    proof (cases "?cs = []")
      case True
      then show ?thesis by (simp add: clean_step_def)
    next
      case False
      with ns fold \<open>?r\<close> show ?thesis by (simp add: split_sep_strings_Join)
    qed
    ultimately show ?thesis
      unfolding c by (simp add: path_elements_def [of "CHR ''/'' # strings_Join ?cs ''/''"]
          IsPathSeparator_def clean_step_def)
  next
    case False
    show ?thesis
    proof (cases "?cs = []")
      case True
      with False assms have "filepath_Clean p = ''.''"
        by (simp add: filepath_Clean_def path_elements_def Let_def)
      with True show ?thesis
        by (simp add: path_elements_def [of "''.''"] clean_step_def IsPathSeparator_def)
    next
      case ne: False
      then have h: "hd ?cs \<in> set ?cs" by simp
      from kept_element [OF k h] have hne: "hd ?cs \<noteq> []" by (auto simp: plain_element_def)
      have "hd (hd ?cs) \<in> set (hd ?cs)" using hne by simp
      with ns h have hh: "hd (hd ?cs) \<noteq> CHR ''/''" by metis
      have j: "strings_Join ?cs ''/'' \<noteq> []"
        using ne hne by (cases "(?cs, ''/'')" rule: strings_Join.cases) auto
      with False assms have c: "filepath_Clean p = strings_Join ?cs ''/''"
        by (simp add: filepath_Clean_def path_elements_def Let_def)
      have r: "\<not> IsPathSeparator (hd (strings_Join ?cs ''/''))"
        using hd_strings_Join [OF ne hne] hh by (simp add: IsPathSeparator_def)
      show ?thesis
        unfolding c using r False fold ne ns
        by (simp add: path_elements_def [of "strings_Join ?cs ''/''"] split_sep_strings_Join)
    qed
  qed
qed

lemma path_elements_snoc:
  assumes "x \<noteq> []" and "plain_element e"
  shows "path_elements (x @ CHR ''/'' # e) = path_elements x @ [e]"
proof -
  have "split_sep (x @ CHR ''/'' # e) = split_sep x @ [e]"
    using assms(2) by (simp add: split_sep_append split_sep_no_sep plain_element_def)
  moreover have "hd (x @ CHR ''/'' # e) = hd x" using assms(1) by simp
  ultimately show ?thesis
    using assms(2) by (simp add: path_elements_def clean_step_def plain_element_def)
qed

lemma filepath_Clean_nonempty: "filepath_Clean p \<noteq> []"
  by (simp add: filepath_Clean_def Let_def)


lemma chrootBaseDir_cfg_nonempty: "chrootBaseDir_cfg c \<noteq> []"
  by (simp add: chrootBaseDir_cfg_def defaultJailerPath_def)

lemma path_elements_Join_snoc:
  assumes "d \<noteq> []" and "plain_element e"
  shows "path_elements (filepath_Join [d, e]) = path_elements d @ [e]"
proof -
  have "filepath_Join [d, e] = filepath_Clean (d @ CHR ''/'' # e)"
    using assms(1) by (simp add: filepath_Join.simps)
  then show ?thesis
    using assms by (simp add: path_elements_Clean path_elements_snoc)
qed

lemma jail_directory_elements:
  "path_elements (filepath_Join
      [filepath_Join [chrootBaseDir_cfg c, ''firecracker'', ID_cfg c], ''api.socket'']) =
     path_elements (filepath_Join [chrootBaseDir_cfg c, ''firecracker'', ID_cfg c]) @ [''api.socket'']"
  "path_elements (rootDir c) =
     path_elements (filepath_Join [chrootBaseDir_cfg c, ''firecracker'', ID_cfg c]) @ [''root'']"
proof -
  let ?P = "chrootBaseDir_cfg c @ CHR ''/'' # ''firecracker'' @ CHR ''/'' # ID_cfg c"
  have ne: "chrootBaseDir_cfg c \<noteq> []" by (rule chrootBaseDir_cfg_nonempty)
  have j: "filepath_Join [chrootBaseDir_cfg c, ''firecracker'', ID_cfg c] = filepath_Clean ?P"
    using ne by (simp add: filepath_Join.simps)
  have "filepath_Clean ?P \<noteq> []" by (rule filepath_Clean_nonempty)
  then show "path_elements (filepath_Join
      [filepath_Join [chrootBaseDir_cfg c, ''firecracker'', ID_cfg c], ''api.socket'']) =
     path_elements (filepath_Join [chrootBaseDir_cfg c, ''firecracker'', ID_cfg c]) @ [''api.socket'']"
    unfolding j by (intro path_elements_Join_snoc) (simp_all add: plain_element_def)
  have pne: "?P \<noteq> []" using ne by simp
  have r: "rootDir c = filepath_Clean (?P @ CHR ''/'' # ''root'')"
    using ne by (simp add: rootDir_def rootfsFolderName_def filepath_Join.simps)
  have "path_elements (filepath_Clean (?P @ CHR ''/'' # ''root'')) =
      path_elements (?P @ CHR ''/'' # ''root'')"
    by (rule path_elements_Clean) simp
  also have "\<dots> = path_elements ?P @ [''root'']"
    using pne by (rule path_elements_snoc) (simp add: plain_element_def)
  also have "path_elements ?P = path_elements (filepath_Clean ?P)"
    using pne by (rule path_elements_Clean [symmetric])
  finally show "path_elements (rootDir c) =
     path_elements (filepath_Join [chrootBaseDir_cfg c, ''firecracker'', ID_cfg c]) @ [''root'']"
    unfolding j r .
qed

lemma attempt_run_succeeds:
  "(\<forall>i<length cs. env (tr @ take i cs) (cs ! i) = None) \<Longrightarrow> attempt env cs tr = (None, tr @ cs)"
proof (induction cs arbitrary: tr)
  case Nil
  then show ?case by simp
next
  case (Cons c cs)
  from Cons.prems have c: "env tr c = None" by force
  have "\<forall>i<length cs. env ((tr @ [c]) @ take i cs) (cs ! i) = None"
  proof (intro allI impI)
    fix i assume "i < length cs"
    then have "Suc i < length (c # cs)" by simp
    with Cons.prems have "env (tr @ take (Suc i) (c # cs)) ((c # cs) ! Suc i) = None" by blast
    then show "env ((tr @ [c]) @ take i cs) (cs ! i) = None" by simp
  qed
  from Cons.IH [OF this] c show ?case by simp
qed

lemma LinkFiles_drives_success:
  "LinkFiles_drives env c rootfs ds tr = (Return None, ds', tr') \<Longrightarrow> ds' = map rewritten ds"
proof (induction ds arbitrary: tr ds' tr')
  case Nil
  then show ?case by simp
next
  case (Cons d ds)
  let ?n = "filepath_Base (StringValue (PathOnHost d))"
  obtain r0 tr0 where l: "linkFileToRootFS env c (filepath_Join [rootfs, ?n])
      (StringValue (PathOnHost d)) tr = (r0, tr0)"
    by (cases "linkFileToRootFS env c (filepath_Join [rootfs, ?n]) (StringValue (PathOnHost d)) tr")
  obtain r1 ds1 tr1 where rest: "LinkFiles_drives env c rootfs ds tr0 = (r1, ds1, tr1)"
    by (cases "LinkFiles_drives env c rootfs ds tr0")
  from Cons.prems l rest have r0: "r0 = Return None" and r1: "r1 = Return None"
    and ds': "ds' = d\<lparr>PathOnHost := Some ?n\<rparr> # ds1"
    by (auto simp: Let_def split: if_splits)
  from rest r1 Cons.IH have "ds1 = map rewritten ds" by simp
  with ds' show ?case by (simp add: rewritten_def)
qed

lemma LinkFilesHandler_Fn_success:
  assumes "LinkFilesHandler_Fn env rootfs kernelImageFileName m tr = (Return None, m', tr')"
  shows "m' = m\<lparr>cfg := (cfg m)\<lparr>Drives := map rewritten (Drives (cfg m)),
                                 KernelImagePath := kernelImageFileName\<rparr>\<rparr>"
proof -
  obtain r0 tr0 where l: "linkFileToRootFS env (JailerCfg (cfg m))
      (filepath_Join [rootfs, kernelImageFileName]) (KernelImagePath (cfg m)) tr = (r0, tr0)"
    by (cases "linkFileToRootFS env (JailerCfg (cfg m))
      (filepath_Join [rootfs, kernelImageFileName]) (KernelImagePath (cfg m)) tr")
  obtain r1 ds1 tr1 where d: "LinkFiles_drives env (JailerCfg (cfg m)) rootfs (Drives (cfg m)) tr0 =
      (r1, ds1, tr1)"
    by (cases "LinkFiles_drives env (JailerCfg (cfg m)) rootfs (Drives (cfg m)) tr0")
  from assms l d have r1: "r1 = Return None"
    and m': "m' = m\<lparr>cfg := (cfg m)\<lparr>Drives := ds1, KernelImagePath := kernelImageFileName\<rparr>\<rparr>"
    by (auto simp: LinkFilesHandler_Fn_def Let_def split: if_splits)
  from d r1 have "ds1 = map rewritten (Drives (cfg m))" by (simp add: LinkFiles_drives_success)
  with m' show ?thesis by simp
qed



section \<open>Properties\<close>

text \<open>
  C1. The teardown step of the bind-mount strategy on a machine whose kernel image and one
  drive have been provisioned, when the unmount of the kernel image fails: the step goes on
  to unmount the drive, and it returns nil, not the error. (By \<open>umountDrive_Fn_never_fails\<close>
  the step makes every unmount call and returns nil whatever the calls answer.)
\<close>

theorem umountDrive_drops_unmount_errors:
  "os_failing [syscall_Unmount ''/srv/jailer/firecracker/test-id/root/vmlinux'' MNT_FORCE]
     22 ''invalid argument'' []
     (syscall_Unmount ''/srv/jailer/firecracker/test-id/root/vmlinux'' MNT_FORCE) =
     Some (OSError 22 ''invalid argument'')
   \<and> umountDrive_Fn
     (os_failing [syscall_Unmount ''/srv/jailer/firecracker/test-id/root/vmlinux'' MNT_FORCE]
        22 ''invalid argument'')
     (example_Machine\<lparr>cfg := example_Config\<lparr>KernelImagePath := ''vmlinux'',
        Drives := [\<lparr>PathOnHost = Some ''disk.img'', IsReadOnly = Some True\<rparr>]\<rparr>\<rparr>) [] =
   (Return None,
    example_Machine\<lparr>cfg := example_Config\<lparr>KernelImagePath := ''vmlinux'',
        Drives := [\<lparr>PathOnHost = Some ''disk.img'', IsReadOnly = Some True\<rparr>]\<rparr>\<rparr>,
    [syscall_Unmount ''/srv/jailer/firecracker/test-id/root/vmlinux'' MNT_FORCE,
     syscall_Unmount ''/srv/jailer/firecracker/test-id/root/disk.img'' MNT_FORCE])"
  by (simp add: umountDrive_Fn_never_fails unmount_call_def rootDir_def chrootBaseDir_cfg_def
      example_Config_def example_JailerConfig_def defaultJailerPath_def rootfsFolderName_def
      StringValue_def os_failing_def path_eval)

text \<open>
  C2. When the init list has no step named \<open>CreateMachineHandlerName\<close>, \<open>AdaptHandlers\<close> of the
  link strategy and of the bind-mount strategy both return \<open>ErrCreateMachineHandlerMissing\<close>
  and give back the handlers as they were, init list and finish list alike.
\<close>

theorem AdaptHandlers_anchor_missing:
  "\<not> Has (FcInit handlers) CreateMachineHandlerName \<Longrightarrow>
     NaiveDevMapperStrategy_AdaptHandlers Rootfs KernelImagePath_s handlers =
       (Some ErrCreateMachineHandlerMissing, handlers)
     \<and> BindMountDevMapperStrategy_AdaptHandlers data handlers =
       (Some ErrCreateMachineHandlerMissing, handlers)"
  by (simp add: NaiveDevMapperStrategy_AdaptHandlers_def BindMountDevMapperStrategy_AdaptHandlers_def)

theorem AdaptHandlers_anchor_missing_witness:
  "\<not> Has (FcInit \<lparr>FcInit = [\<lparr>Name = ''fcinit.SetupNetwork'', Fn = CallerFn 0\<rparr>],
                     Finish = [\<lparr>Name = ''finish.Cleanup'', Fn = CallerFn 1\<rparr>]\<rparr>)
       CreateMachineHandlerName
   \<and> NaiveDevMapperStrategy_AdaptHandlers ''/srv/jailer/firecracker/my-id'' ''/img/vmlinux''
       \<lparr>FcInit = [\<lparr>Name = ''fcinit.SetupNetwork'', Fn = CallerFn 0\<rparr>],
        Finish = [\<lparr>Name = ''finish.Cleanup'', Fn = CallerFn 1\<rparr>]\<rparr> =
       (Some ErrCreateMachineHandlerMissing,
        \<lparr>FcInit = [\<lparr>Name = ''fcinit.SetupNetwork'', Fn = CallerFn 0\<rparr>],
         Finish = [\<lparr>Name = ''finish.Cleanup'', Fn = CallerFn 1\<rparr>]\<rparr>)
   \<and> BindMountDevMapperStrategy_AdaptHandlers ''gid=100,uid=123''
       \<lparr>FcInit = [\<lparr>Name = ''fcinit.SetupNetwork'', Fn = CallerFn 0\<rparr>],
        Finish = [\<lparr>Name = ''finish.Cleanup'', Fn = CallerFn 1\<rparr>]\<rparr> =
       (Some ErrCreateMachineHandlerMissing,
        \<lparr>FcInit = [\<lparr>Name = ''fcinit.SetupNetwork'', Fn = CallerFn 0\<rparr>],
         Finish = [\<lparr>Name = ''finish.Cleanup'', Fn = CallerFn 1\<rparr>]\<rparr>)"
proof -
  have h: "\<not> Has (FcInit \<lparr>FcInit = [\<lparr>Name = ''fcinit.SetupNetwork'', Fn = CallerFn 0\<rparr>],
                     Finish = [\<lparr>Name = ''finish.Cleanup'', Fn = CallerFn 1\<rparr>]\<rparr>)
       CreateMachineHandlerName"
    by (simp add: CreateMachineHandlerName_def)
  show ?thesis
    using h AdaptHandlers_anchor_missing [OF h, of "''/srv/jailer/firecracker/my-id''"
        "''/img/vmlinux''" "''gid=100,uid=123''"]
    by simp
qed

text \<open>
  C3. \<open>Args\<close> is the vector \<open>--id\<close>, \<open>--uid\<close>, \<open>--gid\<close>, \<open>--exec-file\<close>, \<open>--node\<close>, each with its
  value, then the pair \<open>--chroot-base-dir\<close> exactly when the stored directory is not empty,
  then the pair \<open>--netns\<close> exactly when the stored path is not empty, then \<open>--seccomp-level\<close>
  with its value, then \<open>--daemonize\<close> alone exactly when the flag is set.
\<close>

theorem Args_fixed_order:
  "Args b =
     [''--id'', id_f b, ''--uid'', Itoa (uid b), ''--gid'', Itoa (gid b),
      ''--exec-file'', execFile b, ''--node'', Itoa (node b)]
     @ (if chrootBaseDir b = [] then [] else [''--chroot-base-dir'', chrootBaseDir b])
     @ (if netNS b = [] then [] else [''--netns'', netNS b])
     @ [''--seccomp-level'', Itoa (seccompLevel b)]
     @ (if daemonize b then [''--daemonize''] else [])"
  by (simp add: Args_def ID_def UID_def GID_def ExecFile_def NumaNode_def ChrootBaseDir_def
      NetNS_def SeccompLevel_def)

theorem Args_fixed_order_witness:
  "Args (WithDaemonize True (WithNetNS ''/var/run/netns/fc'' (WithSeccompLevel SeccompLevelAdvanced
     (WithExecFile ''/usr/bin/firecracker'' (WithGID 100 (WithUID 123 (WithID ''my-test-id''
        JailerCommandBuilder_zero))))))) =
   [''--id'', ''my-test-id'', ''--uid'', ''123'', ''--gid'', ''100'',
    ''--exec-file'', ''/usr/bin/firecracker'', ''--node'', ''0'',
    ''--netns'', ''/var/run/netns/fc'', ''--seccomp-level'', ''2'', ''--daemonize'']"
  using Args_fixed_order [of "WithDaemonize True (WithNetNS ''/var/run/netns/fc''
     (WithSeccompLevel SeccompLevelAdvanced (WithExecFile ''/usr/bin/firecracker''
     (WithGID 100 (WithUID 123 (WithID ''my-test-id'' JailerCommandBuilder_zero))))))"]
  by (simp add: WithDaemonize_def WithNetNS_def WithSeccompLevel_def WithExecFile_def WithGID_def
      WithUID_def WithID_def JailerCommandBuilder_zero_def SeccompLevelAdvanced_def
      Itoa_def nat_digits.simps digit_char_def)

text \<open>
  C4, as amended. For a configuration with UID and GID present, when every link and every
  change of ownership succeeds, each call at the point of the run where it is made (or, which
  serves as well, when the step returns nil), the step that the link strategy injects links the kernel image from the configuration's kernel image path, and every drive
  from its host path, into the strategy's root directory and changes the owner of each link to
  the configured UID and GID, in that order; afterwards every drive's host path is the base
  name of its original path, and the configuration's kernel image path is the base name of the
  kernel image path that the strategy was constructed with (the name the kernel image was
  linked under). The step is the handler that \<open>AdaptHandlers\<close> inserts after the anchor.
\<close>

theorem LinkFiles_postcondition:
  assumes "UID_cfg (JailerCfg (cfg m)) = Some u" and "GID_cfg (JailerCfg (cfg m)) = Some g"
  shows "((\<forall>i<length (all_link_calls (filepath_Join [Rootfs, rootfsFolderName])
                        (filepath_Base KernelImagePath_s) u g (cfg m)).
             env (tr @ take i (all_link_calls (filepath_Join [Rootfs, rootfsFolderName])
                                 (filepath_Base KernelImagePath_s) u g (cfg m)))
                 (all_link_calls (filepath_Join [Rootfs, rootfsFolderName])
                    (filepath_Base KernelImagePath_s) u g (cfg m) ! i) = None)
          \<or> fst (LinkFilesHandler_Fn env (filepath_Join [Rootfs, rootfsFolderName])
                   (filepath_Base KernelImagePath_s) m tr) = Return None \<longrightarrow>
         LinkFilesHandler_Fn env (filepath_Join [Rootfs, rootfsFolderName])
           (filepath_Base KernelImagePath_s) m tr =
         (Return None,
          m\<lparr>cfg := (cfg m)\<lparr>Drives := map rewritten (Drives (cfg m)),
                              KernelImagePath := filepath_Base KernelImagePath_s\<rparr>\<rparr>,
          tr @ all_link_calls (filepath_Join [Rootfs, rootfsFolderName])
                 (filepath_Base KernelImagePath_s) u g (cfg m)))
       \<and> (Has (FcInit handlers) CreateMachineHandlerName \<longrightarrow>
          NaiveDevMapperStrategy_AdaptHandlers Rootfs KernelImagePath_s handlers =
            (None, handlers\<lparr>FcInit := AppendAfter (FcInit handlers) CreateMachineHandlerName
               \<lparr>Name = LinkFilesToRootFSHandlerName,
                Fn = LinkFilesFn (filepath_Join [Rootfs, rootfsFolderName])
                       (filepath_Base KernelImagePath_s)\<rparr>\<rparr>))"
proof (intro conjI impI)
  let ?r = "filepath_Join [Rootfs, rootfsFolderName]"
  let ?k = "filepath_Base KernelImagePath_s"
  let ?all = "all_link_calls ?r ?k u g (cfg m)"
  let ?post = "(Return None,
          m\<lparr>cfg := (cfg m)\<lparr>Drives := map rewritten (Drives (cfg m)), KernelImagePath := ?k\<rparr>\<rparr>,
          tr @ ?all)"
  assume h: "(\<forall>i<length ?all. env (tr @ take i ?all) (?all ! i) = None)
          \<or> fst (LinkFilesHandler_Fn env ?r ?k m tr) = Return None"
  obtain e tr1 where a: "attempt env ?all tr = (e, tr1)" by (cases "attempt env ?all tr")
  note run = LinkFilesHandler_Fn_attempt [OF assms a]
  from h have "e = None"
  proof
    assume "\<forall>i<length ?all. env (tr @ take i ?all) (?all ! i) = None"
    from attempt_run_succeeds [OF this] a show ?thesis by simp
  next
    assume "fst (LinkFilesHandler_Fn env ?r ?k m tr) = Return None"
    with run show ?thesis by simp
  qed
  moreover from this a have "tr1 = tr @ ?all" by (simp add: attempt_success)
  ultimately show "LinkFilesHandler_Fn env ?r ?k m tr = ?post" using run by simp
next
  assume "Has (FcInit handlers) CreateMachineHandlerName"
  then show "NaiveDevMapperStrategy_AdaptHandlers Rootfs KernelImagePath_s handlers =
            (None, handlers\<lparr>FcInit := AppendAfter (FcInit handlers) CreateMachineHandlerName
               \<lparr>Name = LinkFilesToRootFSHandlerName,
                Fn = LinkFilesFn (filepath_Join [Rootfs, rootfsFolderName])
                       (filepath_Base KernelImagePath_s)\<rparr>\<rparr>)"
    by (simp add: NaiveDevMapperStrategy_AdaptHandlers_def LinkFilesHandler_def)
qed

theorem LinkFiles_postcondition_witness:
  "UID_cfg (JailerCfg (cfg example_Machine)) = Some 123
   \<and> GID_cfg (JailerCfg (cfg example_Machine)) = Some 100
   \<and> os_once [] (os_Link ''/img/vmlinux'' ''/srv/jailer/firecracker/test-id/root/vmlinux'') = None
   \<and> os_once [os_Link ''/img/vmlinux'' ''/srv/jailer/firecracker/test-id/root/vmlinux'']
        (os_Chown ''/srv/jailer/firecracker/test-id/root/vmlinux'' 123 100) = None
   \<and> os_once [os_Link ''/img/vmlinux'' ''/srv/jailer/firecracker/test-id/root/vmlinux'',
               os_Chown ''/srv/jailer/firecracker/test-id/root/vmlinux'' 123 100]
        (os_Link ''/data/disk.img'' ''/srv/jailer/firecracker/test-id/root/disk.img'') = None
   \<and> os_once [os_Link ''/img/vmlinux'' ''/srv/jailer/firecracker/test-id/root/vmlinux'',
               os_Chown ''/srv/jailer/firecracker/test-id/root/vmlinux'' 123 100,
               os_Link ''/data/disk.img'' ''/srv/jailer/firecracker/test-id/root/disk.img'']
        (os_Chown ''/srv/jailer/firecracker/test-id/root/disk.img'' 123 100) = None
   \<and> os_once [os_Link ''/img/vmlinux'' ''/srv/jailer/firecracker/test-id/root/vmlinux'']
        (os_Link ''/img/vmlinux'' ''/srv/jailer/firecracker/test-id/root/vmlinux'') =
      Some (OSError 17 ''file exists'')
   \<and> Has (FcInit \<lparr>FcInit = [\<lparr>Name = CreateMachineHandlerName, Fn = CallerFn 0\<rparr>], Finish = []\<rparr>)
        CreateMachineHandlerName
   \<and> LinkFilesHandler_Fn os_once ''/srv/jailer/firecracker/test-id/root'' ''vmlinux''
        example_Machine [] =
      (Return None,
       example_Machine\<lparr>cfg := example_Config
          \<lparr>Drives := [\<lparr>PathOnHost = Some ''disk.img'', IsReadOnly = Some True\<rparr>],
           KernelImagePath := ''vmlinux''\<rparr>\<rparr>,
       [os_Link ''/img/vmlinux'' ''/srv/jailer/firecracker/test-id/root/vmlinux'',
        os_Chown ''/srv/jailer/firecracker/test-id/root/vmlinux'' 123 100,
        os_Link ''/data/disk.img'' ''/srv/jailer/firecracker/test-id/root/disk.img'',
        os_Chown ''/srv/jailer/firecracker/test-id/root/disk.img'' 123 100])
   \<and> NaiveDevMapperStrategy_AdaptHandlers ''/srv/jailer/firecracker/test-id'' ''/img/vmlinux''
        \<lparr>FcInit = [\<lparr>Name = CreateMachineHandlerName, Fn = CallerFn 0\<rparr>], Finish = []\<rparr> =
      (None, \<lparr>FcInit = [\<lparr>Name = CreateMachineHandlerName, Fn = CallerFn 0\<rparr>,
                         \<lparr>Name = LinkFilesToRootFSHandlerName,
                          Fn = LinkFilesFn ''/srv/jailer/firecracker/test-id/root'' ''vmlinux''\<rparr>],
              Finish = []\<rparr>)"
proof -
  let ?L1 = "os_Link ''/img/vmlinux'' ''/srv/jailer/firecracker/test-id/root/vmlinux''"
  let ?C1 = "os_Chown ''/srv/jailer/firecracker/test-id/root/vmlinux'' 123 100"
  let ?L2 = "os_Link ''/data/disk.img'' ''/srv/jailer/firecracker/test-id/root/disk.img''"
  let ?C2 = "os_Chown ''/srv/jailer/firecracker/test-id/root/disk.img'' 123 100"
  have u: "UID_cfg (JailerCfg (cfg example_Machine)) = Some 123"
    and g: "GID_cfg (JailerCfg (cfg example_Machine)) = Some 100"
    by (simp_all add: example_Machine_def example_Config_def example_JailerConfig_def)
  have o1: "os_once [] ?L1 = None" and o2: "os_once [?L1] ?C1 = None"
    and o3: "os_once [?L1, ?C1] ?L2 = None" and o4: "os_once [?L1, ?C1, ?L2] ?C2 = None"
    and o5: "os_once [?L1] ?L1 = Some (OSError 17 ''file exists'')"
    by (simp_all add: os_once_def)
  have has: "Has (FcInit \<lparr>FcInit = [\<lparr>Name = CreateMachineHandlerName, Fn = CallerFn 0\<rparr>],
                          Finish = []\<rparr>) CreateMachineHandlerName"
    by simp
  have j: "filepath_Join [''/srv/jailer/firecracker/test-id'', rootfsFolderName] =
      ''/srv/jailer/firecracker/test-id/root''"
    by (simp add: path_eval rootfsFolderName_def)
  have b: "filepath_Base ''/img/vmlinux'' = ''vmlinux''"
    by (simp add: path_eval)
  have c: "cfg example_Machine = example_Config"
    by (simp add: example_Machine_def)
  have calls: "all_link_calls ''/srv/jailer/firecracker/test-id/root'' ''vmlinux'' 123 100
       example_Config = [?L1, ?C1, ?L2, ?C2]"
    by (simp add: all_link_calls_def link_calls_def drive_link_calls_def example_Config_def
        StringValue_def path_eval)
  have ok: "\<forall>i<length [?L1, ?C1, ?L2, ?C2].
      os_once ([] @ take i [?L1, ?C1, ?L2, ?C2]) ([?L1, ?C1, ?L2, ?C2] ! i) = None"
  proof (intro allI impI)
    fix i :: nat
    assume "i < length [?L1, ?C1, ?L2, ?C2]"
    then have "i < 4" by simp
    then consider "i = 0" | "i = Suc 0" | "i = Suc (Suc 0)" | "i = Suc (Suc (Suc 0))"
      by linarith
    then show "os_once ([] @ take i [?L1, ?C1, ?L2, ?C2]) ([?L1, ?C1, ?L2, ?C2] ! i) = None"
    proof cases
      case 1
      then show ?thesis using o1 by simp
    next
      case 2
      then show ?thesis using o2 by simp
    next
      case 3
      then show ?thesis using o3 by simp
    next
      case 4
      then show ?thesis using o4 by simp
    qed
  qed
  have rw: "map rewritten (Drives example_Config) =
      [\<lparr>PathOnHost = Some ''disk.img'', IsReadOnly = Some True\<rparr>]"
    by (simp add: rewritten_def example_Config_def StringValue_def path_eval)
  note inst = LinkFiles_postcondition [OF u g, of "''/srv/jailer/firecracker/test-id''"
        "''/img/vmlinux''" os_once "[]"
        "\<lparr>FcInit = [\<lparr>Name = CreateMachineHandlerName, Fn = CallerFn 0\<rparr>], Finish = []\<rparr>",
        unfolded j b c calls rw]
  have run: "LinkFilesHandler_Fn os_once ''/srv/jailer/firecracker/test-id/root'' ''vmlinux''
        example_Machine [] =
      (Return None,
       example_Machine\<lparr>cfg := example_Config
          \<lparr>Drives := [\<lparr>PathOnHost = Some ''disk.img'', IsReadOnly = Some True\<rparr>],
           KernelImagePath := ''vmlinux''\<rparr>\<rparr>,
       [?L1, ?C1, ?L2, ?C2])"
    using inst [THEN conjunct1, THEN mp, OF disjI1, OF ok] by (simp only: append_Nil)
  have adapt: "NaiveDevMapperStrategy_AdaptHandlers ''/srv/jailer/firecracker/test-id''
        ''/img/vmlinux''
        \<lparr>FcInit = [\<lparr>Name = CreateMachineHandlerName, Fn = CallerFn 0\<rparr>], Finish = []\<rparr> =
      (None, \<lparr>FcInit = [\<lparr>Name = CreateMachineHandlerName, Fn = CallerFn 0\<rparr>,
                         \<lparr>Name = LinkFilesToRootFSHandlerName,
                          Fn = LinkFilesFn ''/srv/jailer/firecracker/test-id/root'' ''vmlinux''\<rparr>],
              Finish = []\<rparr>)"
    using inst [THEN conjunct2, THEN mp, OF has] by simp
  show ?thesis
    by (intro conjI) (fact u g o1 o2 o3 o4 o5 has run adapt)+
qed

text \<open>
  The claim C4 as stated fails when the strategy was constructed with a kernel image path
  whose base name differs from that of the configuration's: the step succeeds, and the
  configuration's kernel image path is then \<open>vmlinux\<close>, not the base name \<open>kernel.bin\<close> of its
  original path.
\<close>

theorem LinkFiles_kernel_name_counterexample:
  "UID_cfg (JailerCfg (cfg (example_Machine\<lparr>cfg := example_Config\<lparr>KernelImagePath := ''/boot/kernel.bin''\<rparr>\<rparr>))) = Some 123
   \<and> GID_cfg (JailerCfg (cfg (example_Machine\<lparr>cfg := example_Config\<lparr>KernelImagePath := ''/boot/kernel.bin''\<rparr>\<rparr>))) = Some 100
   \<and> fst (LinkFilesHandler_Fn os_ok
        (filepath_Join [''/srv/jailer/firecracker/test-id'', rootfsFolderName])
        (filepath_Base ''/img/vmlinux'')
        (example_Machine\<lparr>cfg := example_Config\<lparr>KernelImagePath := ''/boot/kernel.bin''\<rparr>\<rparr>) []) =
      Return None
   \<and> KernelImagePath (cfg (fst (snd (LinkFilesHandler_Fn os_ok
        (filepath_Join [''/srv/jailer/firecracker/test-id'', rootfsFolderName])
        (filepath_Base ''/img/vmlinux'')
        (example_Machine\<lparr>cfg := example_Config\<lparr>KernelImagePath := ''/boot/kernel.bin''\<rparr>\<rparr>) [])))) =
      ''vmlinux''
   \<and> filepath_Base
        (KernelImagePath (cfg (example_Machine\<lparr>cfg := example_Config\<lparr>KernelImagePath := ''/boot/kernel.bin''\<rparr>\<rparr>))) =
      ''kernel.bin''"
proof -
  let ?m = "example_Machine\<lparr>cfg := example_Config\<lparr>KernelImagePath := ''/boot/kernel.bin''\<rparr>\<rparr>"
  let ?r = "filepath_Join [''/srv/jailer/firecracker/test-id'', rootfsFolderName]"
  let ?k = "filepath_Base ''/img/vmlinux''"
  have u: "UID_cfg (JailerCfg (cfg ?m)) = Some 123" and g: "GID_cfg (JailerCfg (cfg ?m)) = Some 100"
    by (simp_all add: example_Config_def example_JailerConfig_def)
  have "attempt os_ok (all_link_calls ?r ?k 123 100 (cfg ?m)) [] =
          (None, [] @ all_link_calls ?r ?k 123 100 (cfg ?m))"
    by (rule attempt_all_succeed) (simp add: os_ok_def)
  from LinkFilesHandler_Fn_attempt [OF u g this]
  have run: "LinkFilesHandler_Fn os_ok ?r ?k ?m [] =
      (Return None,
       ?m\<lparr>cfg := (cfg ?m)\<lparr>Drives := map rewritten (Drives (cfg ?m)), KernelImagePath := ?k\<rparr>\<rparr>,
       [] @ all_link_calls ?r ?k 123 100 (cfg ?m))"
    by simp
  have b: "?k = ''vmlinux''" by (simp add: path_eval)
  have b2: "filepath_Base ''/boot/kernel.bin'' = ''kernel.bin''" by (simp add: path_eval)
  show ?thesis using u g run by (simp add: b b2)
qed

text \<open>
  C5. The link step makes its calls in the order of \<open>all_link_calls\<close> (the kernel image's
  link and change of owner, then each drive's). With UID and GID present, when the call at
  position \<open>n\<close> is the first to fail, the step returns that call's error and the calls it has
  made are exactly those up to and including position \<open>n\<close>: no later artifact is attempted,
  and nothing already made is undone. In particular, when the link of the kernel image fails,
  the step returns that error having made this one call, and the machine is as it was.
\<close>

theorem LinkFiles_fail_fast:
  assumes "LinkFilesHandler_Fn env rootfs kernelImageFileName m tr = (r, m', tr')"
  shows "(\<forall>u g n e. UID_cfg (JailerCfg (cfg m)) = Some u \<and> GID_cfg (JailerCfg (cfg m)) = Some g
            \<and> n < length (all_link_calls rootfs kernelImageFileName u g (cfg m))
            \<and> (\<forall>i<n. env (tr @ take i (all_link_calls rootfs kernelImageFileName u g (cfg m)))
                        (all_link_calls rootfs kernelImageFileName u g (cfg m) ! i) = None)
            \<and> env (tr @ take n (all_link_calls rootfs kernelImageFileName u g (cfg m)))
                  (all_link_calls rootfs kernelImageFileName u g (cfg m) ! n) = Some e \<longrightarrow>
            r = Return (Some e)
            \<and> tr' = tr @ take (Suc n) (all_link_calls rootfs kernelImageFileName u g (cfg m)))
       \<and> (\<forall>e. env tr (os_Link (KernelImagePath (cfg m))
                        (filepath_Join [rootfs, kernelImageFileName])) = Some e \<longrightarrow>
            r = Return (Some e) \<and> m' = m
            \<and> tr' = tr @ [os_Link (KernelImagePath (cfg m))
                            (filepath_Join [rootfs, kernelImageFileName])])"
proof (intro conjI allI impI)
  fix u g n e
  let ?all = "all_link_calls rootfs kernelImageFileName u g (cfg m)"
  assume a: "UID_cfg (JailerCfg (cfg m)) = Some u \<and> GID_cfg (JailerCfg (cfg m)) = Some g
            \<and> n < length ?all \<and> (\<forall>i<n. env (tr @ take i ?all) (?all ! i) = None)
            \<and> env (tr @ take n ?all) (?all ! n) = Some e"
  then have u: "UID_cfg (JailerCfg (cfg m)) = Some u" and g: "GID_cfg (JailerCfg (cfg m)) = Some g"
    by simp_all
  from a have "attempt env ?all tr = (Some e, tr @ take (Suc n) ?all)"
    by (intro attempt_first_failure) simp_all
  from LinkFilesHandler_Fn_attempt [OF u g this] assms
  show "r = Return (Some e)" and "tr' = tr @ take (Suc n) ?all" by simp_all
next
  fix e
  assume a: "env tr (os_Link (KernelImagePath (cfg m)) (filepath_Join [rootfs, kernelImageFileName])) = Some e"
  with assms
  show "r = Return (Some e)" and "m' = m"
    and "tr' = tr @ [os_Link (KernelImagePath (cfg m)) (filepath_Join [rootfs, kernelImageFileName])]"
    by (auto simp: LinkFilesHandler_Fn_def linkFileToRootFS_def do_call_def)
qed

theorem LinkFiles_fail_fast_witness:
  "UID_cfg (JailerCfg (cfg example_Machine)) = Some 123
   \<and> GID_cfg (JailerCfg (cfg example_Machine)) = Some 100
   \<and> os_failing [os_Link ''/img/vmlinux'' ''/srv/jailer/firecracker/test-id/root/vmlinux'']
        18 ''invalid cross-device link'' []
        (os_Link ''/img/vmlinux'' ''/srv/jailer/firecracker/test-id/root/vmlinux'') =
      Some (OSError 18 ''invalid cross-device link'')
   \<and> LinkFilesHandler_Fn
        (os_failing [os_Link ''/img/vmlinux'' ''/srv/jailer/firecracker/test-id/root/vmlinux'']
           18 ''invalid cross-device link'')
        ''/srv/jailer/firecracker/test-id/root'' ''vmlinux'' example_Machine [] =
      (Return (Some (OSError 18 ''invalid cross-device link'')), example_Machine,
       [os_Link ''/img/vmlinux'' ''/srv/jailer/firecracker/test-id/root/vmlinux''])"
proof -
  let ?env = "os_failing [os_Link ''/img/vmlinux'' ''/srv/jailer/firecracker/test-id/root/vmlinux'']
                18 ''invalid cross-device link''"
  let ?X = "LinkFilesHandler_Fn ?env ''/srv/jailer/firecracker/test-id/root'' ''vmlinux''
              example_Machine []"
  have u: "UID_cfg (JailerCfg (cfg example_Machine)) = Some 123"
    and g: "GID_cfg (JailerCfg (cfg example_Machine)) = Some 100"
    by (simp_all add: example_Machine_def example_Config_def example_JailerConfig_def)
  have bad: "?env [] (os_Link ''/img/vmlinux'' ''/srv/jailer/firecracker/test-id/root/vmlinux'') =
      Some (OSError 18 ''invalid cross-device link'')"
    by (simp add: os_failing_def)
  have k: "KernelImagePath (cfg example_Machine) = ''/img/vmlinux''"
    by (simp add: example_Machine_def example_Config_def)
  have j: "filepath_Join [''/srv/jailer/firecracker/test-id/root'', ''vmlinux''] =
      ''/srv/jailer/firecracker/test-id/root/vmlinux''"
    by (simp add: path_eval)
  have x: "?X = (fst ?X, fst (snd ?X), snd (snd ?X))" by simp
  from LinkFiles_fail_fast [OF x] bad
  have "fst ?X = Return (Some (OSError 18 ''invalid cross-device link''))"
    and "fst (snd ?X) = example_Machine"
    and "snd (snd ?X) = [os_Link ''/img/vmlinux'' ''/srv/jailer/firecracker/test-id/root/vmlinux'']"
    by (simp_all add: k j)
  then have run: "?X = (Return (Some (OSError 18 ''invalid cross-device link'')), example_Machine,
       [os_Link ''/img/vmlinux'' ''/srv/jailer/firecracker/test-id/root/vmlinux''])"
    by (metis prod.collapse)
  show ?thesis
    by (intro conjI) (fact u g bad run)+
qed

text \<open>
  C6. The provisioning step of the bind-mount strategy on a machine with a read-only drive,
  when every call succeeds: for the kernel image and for the drive it looks the host path up
  and runs the two \<open>nsenter\<close> commands, the one that creates the target and the one that
  bind-mounts the host path on it; it makes no call that remounts the drive's target
  read-only. (By \<open>handler_drives_ignores_IsReadOnly\<close> the calls are the same whatever the
  flags; by \<open>Mount_readOnly_remounts\<close> the mounter's \<open>Mount\<close>, which the step does not call,
  does remount.)
\<close>

theorem handler_no_readonly_remount:
  "IsReadOnly (hd (Drives (cfg example_Machine))) = Some True
   \<and> handler os_ok ''gid=100,uid=123'' example_Machine [] =
   (Return None,
    example_Machine\<lparr>cfg := example_Config\<lparr>KernelImagePath := ''vmlinux'',
        Drives := [\<lparr>PathOnHost = Some ''disk.img'', IsReadOnly = Some True\<rparr>]\<rparr>\<rparr>,
    [os_Stat ''/img/vmlinux'',
     Cmd_Run [''nsenter'', ''-t'', ''4242'',
              ''sudo touch /srv/jailer/firecracker/test-id/root/vmlinux''],
     Cmd_Run [''nsenter'', ''-m'', ''-t'', ''4242'',
              ''sudo mount --bind /img/vmlinux /srv/jailer/firecracker/test-id/root/vmlinux''],
     os_Stat ''/data/disk.img'',
     Cmd_Run [''nsenter'', ''-t'', ''4242'',
              ''sudo touch /srv/jailer/firecracker/test-id/root/disk.img''],
     Cmd_Run [''nsenter'', ''-m'', ''-t'', ''4242'',
              ''sudo mount --bind /data/disk.img /srv/jailer/firecracker/test-id/root/disk.img'']])"
proof -
  have rd: "rootDir (JailerCfg example_Config) = ''/srv/jailer/firecracker/test-id/root''"
    by (simp add: rootDir_def example_Config_def example_JailerConfig_def chrootBaseDir_cfg_def
        defaultJailerPath_def rootfsFolderName_def path_eval)
  have pid: "Itoa 4242 = ''4242''"
    by (simp add: Itoa_def nat_digits.simps digit_char_def)
  have j1: "filepath_Join [''/srv/jailer/firecracker/test-id/root'', ''vmlinux''] =
      ''/srv/jailer/firecracker/test-id/root/vmlinux''"
    and j2: "filepath_Join [''/srv/jailer/firecracker/test-id/root'', ''disk.img''] =
      ''/srv/jailer/firecracker/test-id/root/disk.img''"
    and b1: "filepath_Base ''/img/vmlinux'' = ''vmlinux''"
    and b2: "filepath_Base ''/data/disk.img'' = ''disk.img''"
    by (simp_all add: path_eval)
  have c: "cfg example_Machine = example_Config" "Process_Pid example_Machine = Some 4242"
    by (simp_all add: example_Machine_def Process_Pid_def)
  have f: "KernelImagePath example_Config = ''/img/vmlinux''"
    "Drives example_Config = [\<lparr>PathOnHost = Some ''/data/disk.img'', IsReadOnly = Some True\<rparr>]"
    "UID_cfg (JailerCfg example_Config) = Some 123" "GID_cfg (JailerCfg example_Config) = Some 100"
    by (simp_all add: example_Config_def example_JailerConfig_def)
  show ?thesis
    by (simp add: handler_def bindMount_def do_call_def os_ok_def Let_def c f rd pid j1 j2 b1 b2
        StringValue_def nsenterBin_def)
qed



text \<open>
  C8. A call of a \<open>With*\<close> setter returns the builder with the one field set and every other
  field as in the receiver, and leaves the caller's builder as it was; a call of an accessor,
  of \<open>Args\<close> or of \<open>Build\<close> returns its result and leaves the caller's builder as it was.
\<close>

theorem builder_value_receiver:
  "call (setter (WithBin x_bin)) v =
      (\<lparr>bin = x_bin, id_f = id_f v, uid = uid v, gid = gid v, execFile = execFile v,
        node = node v, chrootBaseDir = chrootBaseDir v, netNS = netNS v,
        daemonize = daemonize v, seccompLevel = seccompLevel v, stdin = stdin v,
        stdout = stdout v, stderr = stderr v\<rparr>,
       v)
   \<and> call (setter (WithID x_id_f)) v =
      (\<lparr>bin = bin v, id_f = x_id_f, uid = uid v, gid = gid v, execFile = execFile v,
        node = node v, chrootBaseDir = chrootBaseDir v, netNS = netNS v,
        daemonize = daemonize v, seccompLevel = seccompLevel v, stdin = stdin v,
        stdout = stdout v, stderr = stderr v\<rparr>,
       v)
   \<and> call (setter (WithUID x_uid)) v =
      (\<lparr>bin = bin v, id_f = id_f v, uid = x_uid, gid = gid v, execFile = execFile v,
        node = node v, chrootBaseDir = chrootBaseDir v, netNS = netNS v,
        daemonize = daemonize v, seccompLevel = seccompLevel v, stdin = stdin v,
        stdout = stdout v, stderr = stderr v\<rparr>,
       v)
   \<and> call (setter (WithGID x_gid)) v =
      (\<lparr>bin = bin v, id_f = id_f v, uid = uid v, gid = x_gid, execFile = execFile v,
        node = node v, chrootBaseDir = chrootBaseDir v, netNS = netNS v,
        daemonize = daemonize v, seccompLevel = seccompLevel v, stdin = stdin v,
        stdout = stdout v, stderr = stderr v\<rparr>,
       v)
   \<and> call (setter (WithExecFile x_execFile)) v =
      (\<lparr>bin = bin v, id_f = id_f v, uid = uid v, gid = gid v, execFile = x_execFile,
        node = node v, chrootBaseDir = chrootBaseDir v, netNS = netNS v,
        daemonize = daemonize v, seccompLevel = seccompLevel v, stdin = stdin v,
        stdout = stdout v, stderr = stderr v\<rparr>,
       v)
   \<and> call (setter (WithNumaNode x_node)) v =
      (\<lparr>bin = bin v, id_f = id_f v, uid = uid v, gid = gid v, execFile = execFile v,
        node = x_node, chrootBaseDir = chrootBaseDir v, netNS = netNS v,
        daemonize = daemonize v, seccompLevel = seccompLevel v, stdin = stdin v,
        stdout = stdout v, stderr = stderr v\<rparr>,
       v)
   \<and> call (setter (WithChrootBaseDir x_chrootBaseDir)) v =
      (\<lparr>bin = bin v, id_f = id_f v, uid = uid v, gid = gid v, execFile = execFile v,
        node = node v, chrootBaseDir = x_chrootBaseDir, netNS = netNS v,
        daemonize = daemonize v, seccompLevel = seccompLevel v, stdin = stdin v,
        stdout = stdout v, stderr = stderr v\<rparr>,
       v)
   \<and> call (setter (WithNetNS x_netNS)) v =
      (\<lparr>bin = bin v, id_f = id_f v, uid = uid v, gid = gid v, execFile = execFile v,
        node = node v, chrootBaseDir = chrootBaseDir v, netNS = x_netNS,
        daemonize = daemonize v, seccompLevel = seccompLevel v, stdin = stdin v,
        stdout = stdout v, stderr = stderr v\<rparr>,
       v)
   \<and> call (setter (WithDaemonize x_daemonize)) v =
      (\<lparr>bin = bin v, id_f = id_f v, uid = uid v, gid = gid v, execFile = execFile v,
        node = node v, chrootBaseDir = chrootBaseDir v, netNS = netNS v,
        daemonize = x_daemonize, seccompLevel = seccompLevel v, stdin = stdin v,
        stdout = stdout v, stderr = stderr v\<rparr>,
       v)
   \<and> call (setter (WithSeccompLevel x_seccompLevel)) v =
      (\<lparr>bin = bin v, id_f = id_f v, uid = uid v, gid = gid v, execFile = execFile v,
        node = node v, chrootBaseDir = chrootBaseDir v, netNS = netNS v,
        daemonize = daemonize v, seccompLevel = x_seccompLevel, stdin = stdin v,
        stdout = stdout v, stderr = stderr v\<rparr>,
       v)
   \<and> call (setter (WithStdout x_stdout)) v =
      (\<lparr>bin = bin v, id_f = id_f v, uid = uid v, gid = gid v, execFile = execFile v,
        node = node v, chrootBaseDir = chrootBaseDir v, netNS = netNS v,
        daemonize = daemonize v, seccompLevel = seccompLevel v, stdin = stdin v,
        stdout = x_stdout, stderr = stderr v\<rparr>,
       v)
   \<and> call (setter (WithStderr x_stderr)) v =
      (\<lparr>bin = bin v, id_f = id_f v, uid = uid v, gid = gid v, execFile = execFile v,
        node = node v, chrootBaseDir = chrootBaseDir v, netNS = netNS v,
        daemonize = daemonize v, seccompLevel = seccompLevel v, stdin = stdin v,
        stdout = stdout v, stderr = x_stderr\<rparr>,
       v)
   \<and> call (setter (WithStdin x_stdin)) v =
      (\<lparr>bin = bin v, id_f = id_f v, uid = uid v, gid = gid v, execFile = execFile v,
        node = node v, chrootBaseDir = chrootBaseDir v, netNS = netNS v,
        daemonize = daemonize v, seccompLevel = seccompLevel v, stdin = x_stdin,
        stdout = stdout v, stderr = stderr v\<rparr>,
       v)
   \<and> call (reader Bin) v = (Bin v, v)
   \<and> call (reader ID) v = (ID v, v)
   \<and> call (reader UID) v = (UID v, v)
   \<and> call (reader GID) v = (GID v, v)
   \<and> call (reader ExecFile) v = (ExecFile v, v)
   \<and> call (reader NumaNode) v = (NumaNode v, v)
   \<and> call (reader ChrootBaseDir) v = (ChrootBaseDir v, v)
   \<and> call (reader NetNS) v = (NetNS v, v)
   \<and> call (reader SeccompLevel) v = (SeccompLevel v, v)
   \<and> call (reader Stdout) v = (Stdout v, v)
   \<and> call (reader Stderr) v = (Stderr v, v)
   \<and> call (reader Stdin) v = (Stdin v, v)
   \<and> call (reader Args) v = (Args v, v)
   \<and> call (reader Build) v = (Build v, v)"
  by (intro conjI; simp add: call_def setter_def reader_def Let_def WithBin_def WithID_def
      WithUID_def WithGID_def WithExecFile_def WithNumaNode_def WithChrootBaseDir_def
      WithNetNS_def WithDaemonize_def WithSeccompLevel_def WithStdout_def WithStderr_def
      WithStdin_def)

text \<open>
  C9, as amended. The link step rewrites the configuration's kernel image path only when it
  succeeds, after every drive has been linked and rewritten, and it rewrites it to the kernel
  file name the step was made with. When the step does not succeed, the kernel image path is
  still its original value; with UID and GID present, when the step returns an error, the
  failed call is the last one made, at some position \<open>n\<close> of \<open>all_link_calls\<close>; from position 2
  on, the call at position \<open>n\<close> belongs to drive \<open>(n - 2) div 2\<close>: the drives before that one
  hold their rewritten base names, that drive and the later ones their original host paths.
\<close>

theorem LinkFiles_kernel_path_last:
  assumes "LinkFilesHandler_Fn env rootfs kernelImageFileName m tr = (r, m', tr')"
  shows "(r = Return None \<longrightarrow>
            KernelImagePath (cfg m') = kernelImageFileName
            \<and> Drives (cfg m') = map rewritten (Drives (cfg m)))
       \<and> (r \<noteq> Return None \<longrightarrow> KernelImagePath (cfg m') = KernelImagePath (cfg m))
       \<and> (\<forall>u g e. UID_cfg (JailerCfg (cfg m)) = Some u \<and> GID_cfg (JailerCfg (cfg m)) = Some g
            \<and> r = Return (Some e) \<longrightarrow>
            (\<exists>n. n < length (all_link_calls rootfs kernelImageFileName u g (cfg m))
              \<and> tr' = tr @ take (Suc n) (all_link_calls rootfs kernelImageFileName u g (cfg m))
              \<and> env (tr @ take n (all_link_calls rootfs kernelImageFileName u g (cfg m)))
                    (all_link_calls rootfs kernelImageFileName u g (cfg m) ! n) = Some e
              \<and> Drives (cfg m') =
                  map rewritten (take ((n - 2) div 2) (Drives (cfg m)))
                  @ drop ((n - 2) div 2) (Drives (cfg m))))
       \<and> (\<forall>u g. UID_cfg (JailerCfg (cfg m)) = Some u \<and> GID_cfg (JailerCfg (cfg m)) = Some g
            \<and> r = Return None \<longrightarrow>
            tr' = tr @ all_link_calls rootfs kernelImageFileName u g (cfg m))"
proof (intro conjI allI impI)
  assume "r = Return None"
  with assms LinkFilesHandler_Fn_success [of env rootfs kernelImageFileName m tr m' tr']
  show "KernelImagePath (cfg m') = kernelImageFileName"
    and "Drives (cfg m') = map rewritten (Drives (cfg m))" by simp_all
next
  assume "r \<noteq> Return None"
  with assms show "KernelImagePath (cfg m') = KernelImagePath (cfg m)"
    by (rule LinkFilesHandler_Fn_failure_keeps_kernel_path)
next
  fix u g e
  let ?all = "all_link_calls rootfs kernelImageFileName u g (cfg m)"
  assume h: "UID_cfg (JailerCfg (cfg m)) = Some u \<and> GID_cfg (JailerCfg (cfg m)) = Some g
            \<and> r = Return (Some e)"
  then have u: "UID_cfg (JailerCfg (cfg m)) = Some u" and g: "GID_cfg (JailerCfg (cfg m)) = Some g"
    and r: "r = Return (Some e)" by simp_all
  obtain e1 tr1 where a: "attempt env ?all tr = (e1, tr1)" by (cases "attempt env ?all tr")
  from LinkFilesHandler_Fn_attempt [OF u g a] assms r
  have e1: "e1 = Some e" and tr1: "tr1 = tr'"
    and m': "m' = m\<lparr>cfg := (cfg m)\<lparr>Drives := drives_on_failure (length tr' - length tr) (Drives (cfg m))\<rparr>\<rparr>"
    by (auto split: if_splits)
  from a e1 tr1 have "attempt env ?all tr = (Some e, tr')" by simp
  from attempt_error_position [OF this] obtain n where n: "n < length ?all"
    "tr' = tr @ take (Suc n) ?all" "env (tr @ take n ?all) (?all ! n) = Some e" by blast
  from n(1,2) have "length tr' - length tr = Suc n" by simp
  with m' have "Drives (cfg m') = map rewritten (take ((n - 2) div 2) (Drives (cfg m)))
                @ drop ((n - 2) div 2) (Drives (cfg m))"
    by (simp add: drives_on_failure_def)
  with n show "\<exists>n. n < length ?all \<and> tr' = tr @ take (Suc n) ?all
              \<and> env (tr @ take n ?all) (?all ! n) = Some e
              \<and> Drives (cfg m') = map rewritten (take ((n - 2) div 2) (Drives (cfg m)))
                  @ drop ((n - 2) div 2) (Drives (cfg m))" by blast
next
  fix u g
  let ?all = "all_link_calls rootfs kernelImageFileName u g (cfg m)"
  assume h: "UID_cfg (JailerCfg (cfg m)) = Some u \<and> GID_cfg (JailerCfg (cfg m)) = Some g
            \<and> r = Return None"
  then have u: "UID_cfg (JailerCfg (cfg m)) = Some u" and g: "GID_cfg (JailerCfg (cfg m)) = Some g"
    and r: "r = Return None" by simp_all
  obtain e1 tr1 where a: "attempt env ?all tr = (e1, tr1)" by (cases "attempt env ?all tr")
  from LinkFilesHandler_Fn_attempt [OF u g a] assms r
  have "e1 = None" and "tr1 = tr'" by simp_all
  with a show "tr' = tr @ ?all" by (simp add: attempt_success)
qed

theorem LinkFiles_kernel_path_last_witness:
  "LinkFilesHandler_Fn
     (os_failing [os_Link ''/data/scratch.img'' ''/srv/jailer/firecracker/test-id/root/scratch.img'']
        18 ''invalid cross-device link'')
     ''/srv/jailer/firecracker/test-id/root'' ''vmlinux''
     (example_Machine\<lparr>cfg := example_Config\<lparr>Drives :=
        [\<lparr>PathOnHost = Some ''/data/disk.img'', IsReadOnly = Some True\<rparr>,
         \<lparr>PathOnHost = Some ''/data/scratch.img'', IsReadOnly = Some False\<rparr>]\<rparr>\<rparr>) [] =
   (Return (Some (OSError 18 ''invalid cross-device link'')),
    example_Machine\<lparr>cfg := example_Config\<lparr>Drives :=
        [\<lparr>PathOnHost = Some ''disk.img'', IsReadOnly = Some True\<rparr>,
         \<lparr>PathOnHost = Some ''/data/scratch.img'', IsReadOnly = Some False\<rparr>]\<rparr>\<rparr>,
    [os_Link ''/img/vmlinux'' ''/srv/jailer/firecracker/test-id/root/vmlinux'',
     os_Chown ''/srv/jailer/firecracker/test-id/root/vmlinux'' 123 100,
     os_Link ''/data/disk.img'' ''/srv/jailer/firecracker/test-id/root/disk.img'',
     os_Chown ''/srv/jailer/firecracker/test-id/root/disk.img'' 123 100,
     os_Link ''/data/scratch.img'' ''/srv/jailer/firecracker/test-id/root/scratch.img''])
   \<and> KernelImagePath (cfg (fst (snd (LinkFilesHandler_Fn
     (os_failing [os_Link ''/data/scratch.img'' ''/srv/jailer/firecracker/test-id/root/scratch.img'']
        18 ''invalid cross-device link'')
     ''/srv/jailer/firecracker/test-id/root'' ''vmlinux''
     (example_Machine\<lparr>cfg := example_Config\<lparr>Drives :=
        [\<lparr>PathOnHost = Some ''/data/disk.img'', IsReadOnly = Some True\<rparr>,
         \<lparr>PathOnHost = Some ''/data/scratch.img'', IsReadOnly = Some False\<rparr>]\<rparr>\<rparr>) [])))) =
     ''/img/vmlinux''"
proof -
  let ?env = "os_failing [os_Link ''/data/scratch.img'' ''/srv/jailer/firecracker/test-id/root/scratch.img'']
                18 ''invalid cross-device link''"
  let ?m = "example_Machine\<lparr>cfg := example_Config\<lparr>Drives :=
        [\<lparr>PathOnHost = Some ''/data/disk.img'', IsReadOnly = Some True\<rparr>,
         \<lparr>PathOnHost = Some ''/data/scratch.img'', IsReadOnly = Some False\<rparr>]\<rparr>\<rparr>"
  let ?tr = "[os_Link ''/img/vmlinux'' ''/srv/jailer/firecracker/test-id/root/vmlinux'',
     os_Chown ''/srv/jailer/firecracker/test-id/root/vmlinux'' 123 100,
     os_Link ''/data/disk.img'' ''/srv/jailer/firecracker/test-id/root/disk.img'',
     os_Chown ''/srv/jailer/firecracker/test-id/root/disk.img'' 123 100,
     os_Link ''/data/scratch.img'' ''/srv/jailer/firecracker/test-id/root/scratch.img'']"
  have u: "UID_cfg (JailerCfg (cfg ?m)) = Some 123" and g: "GID_cfg (JailerCfg (cfg ?m)) = Some 100"
    by (simp_all add: example_Config_def example_JailerConfig_def)
  have calls: "all_link_calls ''/srv/jailer/firecracker/test-id/root'' ''vmlinux'' 123 100 (cfg ?m) =
      ?tr @ [os_Chown ''/srv/jailer/firecracker/test-id/root/scratch.img'' 123 100]"
    by (simp add: all_link_calls_def link_calls_def drive_link_calls_def example_Config_def
        StringValue_def path_eval)
  have att: "attempt ?env (all_link_calls ''/srv/jailer/firecracker/test-id/root'' ''vmlinux''
               123 100 (cfg ?m)) [] = (Some (OSError 18 ''invalid cross-device link''), ?tr)"
    unfolding calls by (simp add: os_failing_def)
  have d: "drives_on_failure (length ?tr - length ([] :: syscall list)) (Drives (cfg ?m)) =
        [\<lparr>PathOnHost = Some ''disk.img'', IsReadOnly = Some True\<rparr>,
         \<lparr>PathOnHost = Some ''/data/scratch.img'', IsReadOnly = Some False\<rparr>]"
    by (simp add: drives_on_failure_def rewritten_def StringValue_def path_eval)
  have k: "KernelImagePath (cfg ?m) = ''/img/vmlinux''"
    by (simp add: example_Config_def)
  from LinkFilesHandler_Fn_attempt [OF u g att]
  have run: "LinkFilesHandler_Fn ?env ''/srv/jailer/firecracker/test-id/root'' ''vmlinux'' ?m [] =
      (Return (Some (OSError 18 ''invalid cross-device link'')),
       example_Machine\<lparr>cfg := example_Config\<lparr>Drives :=
        [\<lparr>PathOnHost = Some ''disk.img'', IsReadOnly = Some True\<rparr>,
         \<lparr>PathOnHost = Some ''/data/scratch.img'', IsReadOnly = Some False\<rparr>]\<rparr>\<rparr>, ?tr)"
    unfolding d by simp
  from LinkFiles_kernel_path_last [OF run] k
  have kp: "KernelImagePath (cfg (fst (snd (LinkFilesHandler_Fn ?env
      ''/srv/jailer/firecracker/test-id/root'' ''vmlinux'' ?m [])))) = ''/img/vmlinux''"
    by (simp add: run)
  show ?thesis
    by (intro conjI) (fact run kp)+
qed

text \<open>
  The claim C9 as stated has the kernel image path rewritten to its base name. A step made
  with the kernel file name \<open>vmlinux\<close>, on a configuration whose kernel image path is
  \<open>/var/lib/kernels/bzImage\<close>, succeeds and leaves the path \<open>vmlinux\<close>; the base name of the
  original path is \<open>bzImage\<close>.
\<close>

theorem LinkFiles_kernel_path_own_basename_counterexample:
  "LinkFilesHandler_Fn os_ok ''/srv/jailer/firecracker/test-id/root'' ''vmlinux''
     (example_Machine\<lparr>cfg := example_Config\<lparr>KernelImagePath := ''/var/lib/kernels/bzImage'',
                                                 Drives := []\<rparr>\<rparr>) [] =
   (Return None,
    example_Machine\<lparr>cfg := example_Config\<lparr>KernelImagePath := ''vmlinux'', Drives := []\<rparr>\<rparr>,
    [os_Link ''/var/lib/kernels/bzImage'' ''/srv/jailer/firecracker/test-id/root/vmlinux'',
     os_Chown ''/srv/jailer/firecracker/test-id/root/vmlinux'' 123 100])
   \<and> filepath_Base ''/var/lib/kernels/bzImage'' = ''bzImage''
   \<and> filepath_Base ''/img/vmlinux'' = ''vmlinux''"
  by (simp add: LinkFilesHandler_Fn_def linkFileToRootFS_def do_call_def os_ok_def Let_def
      example_Machine_def example_Config_def example_JailerConfig_def path_eval)

text \<open>
  C10. Whatever the outcome, \<open>jail\<close> leaves the configuration changed in its socket path
  alone, which is \<open>api.socket\<close> joined to the jail directory \<open><chroot base>/firecracker/<id>\<close>;
  in particular when the strategy's \<open>AdaptHandlers\<close> fails for want of the anchor, \<open>jail\<close>
  returns that error with the handlers untouched and the socket path set. The socket path is
  the jail directory's elements followed by \<open>api.socket\<close>, and the root directory is the jail
  directory's elements followed by \<open>root\<close>: the socket is an entry of the jail directory
  itself, beside \<open>root\<close> and not below it.
\<close>

theorem jail_sets_SocketPath:
  "snd (snd (jail m c)) =
     c\<lparr>SocketPath := filepath_Join
          [filepath_Join [chrootBaseDir_cfg (JailerCfg c), ''firecracker'', ID_cfg (JailerCfg c)],
           ''api.socket'']\<rparr>
   \<and> (\<forall>u g n s. UID_cfg (JailerCfg c) = Some u \<and> GID_cfg (JailerCfg c) = Some g
         \<and> NumaNode_cfg (JailerCfg c) = Some n \<and> DevMapperStrategy (JailerCfg c) = Some s
         \<and> \<not> Has (FcInit (Handlers m)) CreateMachineHandlerName \<longrightarrow>
         fst (jail m c) = Return (Some ErrCreateMachineHandlerMissing)
         \<and> Handlers (fst (snd (jail m c))) = Handlers m)
   \<and> path_elements (SocketPath (snd (snd (jail m c)))) =
       path_elements (filepath_Join [chrootBaseDir_cfg (JailerCfg c), ''firecracker'',
                                     ID_cfg (JailerCfg c)]) @ [''api.socket'']
   \<and> path_elements (rootDir (JailerCfg c)) =
       path_elements (filepath_Join [chrootBaseDir_cfg (JailerCfg c), ''firecracker'',
                                     ID_cfg (JailerCfg c)]) @ [''root'']"
proof (intro conjI allI impI)
  show s: "snd (snd (jail m c)) =
     c\<lparr>SocketPath := filepath_Join
          [filepath_Join [chrootBaseDir_cfg (JailerCfg c), ''firecracker'', ID_cfg (JailerCfg c)],
           ''api.socket'']\<rparr>"
    by (simp add: jail_def Let_def split: option.splits prod.splits)
  show "path_elements (SocketPath (snd (snd (jail m c)))) =
       path_elements (filepath_Join [chrootBaseDir_cfg (JailerCfg c), ''firecracker'',
                                     ID_cfg (JailerCfg c)]) @ [''api.socket'']"
    unfolding s by (simp add: jail_directory_elements(1))
  show "path_elements (rootDir (JailerCfg c)) =
       path_elements (filepath_Join [chrootBaseDir_cfg (JailerCfg c), ''firecracker'',
                                     ID_cfg (JailerCfg c)]) @ [''root'']"
    by (rule jail_directory_elements(2))
next
  fix u g n s
  assume a: "UID_cfg (JailerCfg c) = Some u \<and> GID_cfg (JailerCfg c) = Some g
         \<and> NumaNode_cfg (JailerCfg c) = Some n \<and> DevMapperStrategy (JailerCfg c) = Some s
         \<and> \<not> Has (FcInit (Handlers m)) CreateMachineHandlerName"
  then have "AdaptHandlers s (Handlers m) = (Some ErrCreateMachineHandlerMissing, Handlers m)"
    by (cases s)
      (simp_all add: NaiveDevMapperStrategy_AdaptHandlers_def BindMountDevMapperStrategy_AdaptHandlers_def)
  with a show "fst (jail m c) = Return (Some ErrCreateMachineHandlerMissing)"
    by (simp add: jail_def Let_def)
  from a \<open>AdaptHandlers s (Handlers m) = (Some ErrCreateMachineHandlerMissing, Handlers m)\<close>
  show "Handlers (fst (snd (jail m c))) = Handlers m"
    by (simp add: jail_def Let_def)
qed

theorem jail_sets_SocketPath_witness:
  "UID_cfg (JailerCfg example_Config) = Some 123 \<and> GID_cfg (JailerCfg example_Config) = Some 100
   \<and> NumaNode_cfg (JailerCfg example_Config) = Some 0
   \<and> DevMapperStrategy (JailerCfg example_Config) =
       Some (NaiveDevMapperStrategy ''/srv/jailer/firecracker/test-id'' ''/img/vmlinux'')
   \<and> \<not> Has (FcInit (Handlers example_Machine)) CreateMachineHandlerName
   \<and> fst (jail example_Machine example_Config) = Return (Some ErrCreateMachineHandlerMissing)
   \<and> Handlers (fst (snd (jail example_Machine example_Config))) = Handlers example_Machine
   \<and> SocketPath example_Config = ''/tmp/firecracker.sock''
   \<and> SocketPath (snd (snd (jail example_Machine example_Config))) =
       ''/srv/jailer/firecracker/test-id/api.socket''
   \<and> rootDir (JailerCfg example_Config) = ''/srv/jailer/firecracker/test-id/root''"
proof -
  have h: "UID_cfg (JailerCfg example_Config) = Some 123 \<and> GID_cfg (JailerCfg example_Config) = Some 100
   \<and> NumaNode_cfg (JailerCfg example_Config) = Some 0
   \<and> DevMapperStrategy (JailerCfg example_Config) =
       Some (NaiveDevMapperStrategy ''/srv/jailer/firecracker/test-id'' ''/img/vmlinux'')
   \<and> \<not> Has (FcInit (Handlers example_Machine)) CreateMachineHandlerName"
    by (simp add: example_Config_def example_JailerConfig_def example_Machine_def
        CreateMachineHandlerName_def)
  have p: "filepath_Join
          [filepath_Join [chrootBaseDir_cfg (JailerCfg example_Config), ''firecracker'',
             ID_cfg (JailerCfg example_Config)], ''api.socket''] =
        ''/srv/jailer/firecracker/test-id/api.socket''"
    by (simp add: example_Config_def example_JailerConfig_def chrootBaseDir_cfg_def
        defaultJailerPath_def path_eval)
  have r: "rootDir (JailerCfg example_Config) = ''/srv/jailer/firecracker/test-id/root''"
    by (simp add: rootDir_def example_Config_def example_JailerConfig_def chrootBaseDir_cfg_def
        defaultJailerPath_def rootfsFolderName_def path_eval)
  have s: "SocketPath example_Config = ''/tmp/firecracker.sock''" by (simp add: example_Config_def)
  show ?thesis
    using h jail_sets_SocketPath [of example_Machine example_Config]
    by (simp add: p r s)
qed

end
